theory Spec2Isabelle
  imports Main "HOL-Library.Word"
begin

section \<open>Strings of the program\<close>

text \<open>
  A JavaScript string is a sequence of 16-bit code units. The content of TODO.md is
  modelled as the string that \<^verbatim>\<open>fs.readFileSync(TODO_FILE, 'utf8')\<close> returns and
  that \<^verbatim>\<open>fs.writeFileSync(TODO_FILE, md, 'utf8')\<close> receives; the UTF-8 coding of the
  file on disk is not modelled.
\<close>

type_synonym jschar = "16 word"
type_synonym jsstr = "jschar list"

definition js :: "string \<Rightarrow> jsstr" where
  "js s = map of_char s"

text \<open>
  The line terminators of ECMAScript: a \<^verbatim>\<open>.\<close> of a regular expression without the
  \<^verbatim>\<open>s\<close> flag matches every code unit but these.
\<close>

definition isLineTerminator :: "jschar \<Rightarrow> bool" where
  "isLineTerminator c \<longleftrightarrow> c = 0x000A \<or> c = 0x000D \<or> c = 0x2028 \<or> c = 0x2029"

text \<open>The white space of ECMAScript: TAB, VT, FF, ZWNBSP and the category Zs.\<close>

definition isWhiteSpace :: "jschar \<Rightarrow> bool" where
  "isWhiteSpace c \<longleftrightarrow>
     c = 0x0009 \<or> c = 0x000B \<or> c = 0x000C \<or> c = 0x0020 \<or> c = 0x00A0 \<or> c = 0x1680 \<or>
     (0x2000 \<le> c \<and> c \<le> 0x200A) \<or> c = 0x202F \<or> c = 0x205F \<or> c = 0x3000 \<or> c = 0xFEFF"

text \<open>\<^verbatim>\<open>String.prototype.trim\<close> strips white space and line terminators at both ends.\<close>

definition isTrimmable :: "jschar \<Rightarrow> bool" where
  "isTrimmable c \<longleftrightarrow> isWhiteSpace c \<or> isLineTerminator c"

definition trim :: "jsstr \<Rightarrow> jsstr" where
  "trim s = rev (dropWhile isTrimmable (rev (dropWhile isTrimmable s)))"

text \<open>\<^verbatim>\<open>content.split('\n')\<close>: the pieces between the line feeds, at least one piece.\<close>

fun split_nl :: "jsstr \<Rightarrow> jsstr list" where
  "split_nl [] = [[]]"
| "split_nl (c # cs) =
     (if c = 0x0A then [] # split_nl cs
      else (case split_nl cs of [] \<Rightarrow> [[c]] | l # ls \<Rightarrow> (c # l) # ls))"

section \<open>Data model\<close>

record item =
  item_done :: bool
  item_text :: jsstr

record todo_section =
  name :: jsstr
  items :: "item list"

record data =
  sections :: "todo_section list"

text \<open>The default section \<^verbatim>\<open>{ name: 'General', items: [] }\<close>.\<close>

definition General :: todo_section where
  "General = \<lparr>name = js ''General'', items = []\<rparr>"

section \<open>Parsing TODO.md\<close>

text \<open>
  \<^verbatim>\<open>line.match(/^## (.+)$/)\<close>: the whole line is \<^verbatim>\<open>## \<close> followed by one or more
  code units none of which is a line terminator; the result is the first group.
\<close>

fun match_section :: "jsstr \<Rightarrow> jsstr option" where
  "match_section (a # b # c # rest) =
     (if a = 0x23 \<and> b = 0x23 \<and> c = 0x20 \<and> rest \<noteq> [] \<and>
         list_all (\<lambda>u. \<not> isLineTerminator u) rest
      then Some rest else None)"
| "match_section _ = None"

text \<open>
  \<^verbatim>\<open>line.match(/^- \[([ xX])\] (.+)$/)\<close>: the result is the pair of the first group
  (the marker) and the second group.
\<close>

fun match_item :: "jsstr \<Rightarrow> (jschar \<times> jsstr) option" where
  "match_item (a # b # c # m # d # e # rest) =
     (if a = 0x2D \<and> b = 0x20 \<and> c = 0x5B \<and> (m = 0x20 \<or> m = 0x78 \<or> m = 0x58) \<and>
         d = 0x5D \<and> e = 0x20 \<and> rest \<noteq> [] \<and>
         list_all (\<lambda>u. \<not> isLineTerminator u) rest
      then Some (m, rest) else None)"
| "match_item _ = None"

text \<open>
  The only run-time error that the statements of the program can raise by themselves is
  the TypeError of a property access on \<^verbatim>\<open>null\<close>.
\<close>

datatype js_error = TypeError

text \<open>
  The state of the loop of \<^verbatim>\<open>parseTodoMd\<close>: the array \<^verbatim>\<open>sections\<close> and the
  variable \<^verbatim>\<open>currentSection\<close>, which is \<^verbatim>\<open>null\<close> or a reference to an object of
  the array. Objects enter the array by \<^verbatim>\<open>push\<close> only and never leave it, so the
  reference is modelled as the position of the object in the array.
\<close>

type_synonym parse_state = "todo_section list \<times> nat option"

text \<open>\<^verbatim>\<open>currentSection.items.push(it)\<close>\<close>

definition items_push :: "nat option \<Rightarrow> item \<Rightarrow> todo_section list \<Rightarrow> js_error + todo_section list" where
  "items_push cur it secs =
     (case cur of
        None \<Rightarrow> Inl TypeError
      | Some k \<Rightarrow> Inr (secs[k := (secs ! k)\<lparr>items := items (secs ! k) @ [it]\<rparr>]))"

text \<open>The body of the loop, for one line.\<close>

definition parse_line :: "jsstr \<Rightarrow> parse_state \<Rightarrow> js_error + parse_state" where
  "parse_line line st =
     (case st of (secs, cur) \<Rightarrow>
        (case match_section line of
           Some g \<Rightarrow> Inr (secs @ [\<lparr>name = trim g, items = []\<rparr>], Some (length secs))
         | None \<Rightarrow>
             (case match_item line of
                Some (m, t) \<Rightarrow>
                  if cur \<noteq> None
                  then (case items_push cur \<lparr>item_done = (m \<noteq> 0x20), item_text = trim t\<rparr> secs of
                          Inl e \<Rightarrow> Inl e
                        | Inr secs' \<Rightarrow> Inr (secs', cur))
                  else Inr st
              | None \<Rightarrow> Inr st)))"

fun parse_lines :: "jsstr list \<Rightarrow> parse_state \<Rightarrow> js_error + parse_state" where
  "parse_lines [] st = Inr st"
| "parse_lines (l # ls) st =
     (case parse_line l st of Inl e \<Rightarrow> Inl e | Inr st' \<Rightarrow> parse_lines ls st')"

text \<open>\<^verbatim>\<open>parseTodoMd\<close> from the content of the file on.\<close>

definition parse_content :: "jsstr \<Rightarrow> js_error + data" where
  "parse_content content =
     (case parse_lines (split_nl content) ([], None) of
        Inl e \<Rightarrow> Inl e
      | Inr (secs, cur) \<Rightarrow>
          Inr \<lparr>sections = (if length secs = 0 then secs @ [General] else secs)\<rparr>)"

section \<open>Serializing\<close>

definition serialize_item :: "item \<Rightarrow> jsstr" where
  "serialize_item it =
     js ''- ['' @ (if item_done it then js ''x'' else js '' '') @ js ''] '' @ item_text it @ [0x0A]"

definition serialize_section :: "todo_section \<Rightarrow> jsstr" where
  "serialize_section s =
     [0x0A] @ js ''## '' @ name s @ [0x0A, 0x0A] @ concat (map serialize_item (items s))"

definition serializeTodoMd :: "data \<Rightarrow> jsstr" where
  "serializeTodoMd d = js ''# Todo List'' @ [0x0A] @ concat (map serialize_section (sections d))"

section \<open>Values of the request body\<close>

text \<open>
  \<^verbatim>\<open>express.json()\<close> makes of the request body what \<^verbatim>\<open>JSON.parse\<close> returns: a
  field may hold any JSON value, or be absent. A Number is \<open>Index n\<close> when it is a
  non-negative integer (the negative zero counts as 0) and \<open>OtherNumber\<close> when it is
  negative, not an integer, or infinite.
\<close>

datatype jsnumber = Index nat | OtherNumber

datatype json =
    JNull
  | JBool bool
  | JNumber jsnumber
  | JString jsstr
  | JArray "json list"
  | JObject "(jsstr \<times> json) list"

text \<open>The decimal digits of a natural number, as \<^verbatim>\<open>Number::toString\<close> writes them.\<close>

fun decimal :: "nat \<Rightarrow> jsstr" where
  "decimal n =
     (if n < 10 then [of_nat (48 + n)] else decimal (n div 10) @ [of_nat (48 + n mod 10)])"

declare decimal.simps [simp del]

text \<open>
  \<^verbatim>\<open>ToString\<close> of a value of the body, which for an array or an object goes through
  \<^verbatim>\<open>ToPrimitive\<close>. The result \<open>None\<close> stands for a string that holds the rendering of
  a Number other than a non-negative integer below \<open>10^21\<close>: it has a sign, a point or
  an exponent, or is \<^verbatim>\<open>Infinity\<close>, and no property of an array has such a name.
  An array is joined with commas, \<^verbatim>\<open>null\<close> elements giving the empty string. A plain
  object gives \<^verbatim>\<open>[object Object]\<close>, unless it has a key \<^verbatim>\<open>toString\<close> of its own:
  the value of that key is not callable, \<^verbatim>\<open>valueOf\<close> does not return a primitive,
  and the conversion throws a TypeError.
\<close>

definition join_strings :: "jsstr option \<Rightarrow> jsstr option \<Rightarrow> jsstr option" where
  "join_strings a b =
     (case a of None \<Rightarrow> None
      | Some s \<Rightarrow> (case b of None \<Rightarrow> None | Some t \<Rightarrow> Some (s @ [0x2C] @ t)))"

fun to_string :: "json \<Rightarrow> js_error + jsstr option"
  and element_string :: "json \<Rightarrow> js_error + jsstr option"
  and join :: "json list \<Rightarrow> js_error + jsstr option" where
  "to_string JNull = Inr (Some (js ''null''))"
| "to_string (JBool b) = Inr (Some (if b then js ''true'' else js ''false''))"
| "to_string (JNumber (Index n)) = Inr (if n < 10 ^ 21 then Some (decimal n) else None)"
| "to_string (JNumber OtherNumber) = Inr None"
| "to_string (JString s) = Inr (Some s)"
| "to_string (JArray xs) = join xs"
| "to_string (JObject kvs) =
     (if js ''toString'' \<in> set (map fst kvs) then Inl TypeError
      else Inr (Some (js ''[object Object]'')))"
| "element_string JNull = Inr (Some [])"
| "element_string (JBool b) = to_string (JBool b)"
| "element_string (JNumber x) = to_string (JNumber x)"
| "element_string (JString s) = to_string (JString s)"
| "element_string (JArray xs) = to_string (JArray xs)"
| "element_string (JObject kvs) = to_string (JObject kvs)"
| "join [] = Inr (Some [])"
| "join [x] = element_string x"
| "join (x # y # ys) =
     (case element_string x of
        Inl e \<Rightarrow> Inl e
      | Inr a \<Rightarrow> (case join (y # ys) of Inl e \<Rightarrow> Inl e | Inr b \<Rightarrow> Inr (join_strings a b)))"

text \<open>\<^verbatim>\<open>ToPropertyKey(index)\<close>; an absent field is \<^verbatim>\<open>undefined\<close>.\<close>

definition property_key :: "json option \<Rightarrow> js_error + jsstr option" where
  "property_key index =
     (case index of None \<Rightarrow> Inr (Some (js ''undefined'')) | Some v \<Rightarrow> to_string v)"

section \<open>The objects that every array inherits from\<close>

text \<open>
  \<^verbatim>\<open>sec.items[index]\<close> reads a property of the array: an item, \<^verbatim>\<open>length\<close>, or a
  property the array inherits from \<^verbatim>\<open>Array.prototype\<close> and
  \<^verbatim>\<open>Object.prototype\<close>. Which names are inherited when the process starts depends
  on the version of the runtime, so it is a parameter, \<open>inherited\<close>; the value of each
  is an object (a function, or \<^verbatim>\<open>Array.prototype\<close> itself for \<^verbatim>\<open>__proto__\<close>), and
  these names are identifiers, none of which \<^verbatim>\<open>ToNumber\<close> reads as a number. The
  handlers can assign \<^verbatim>\<open>done\<close> and \<^verbatim>\<open>text\<close> to such an object; the assignment
  lasts as long as the process, and what was assigned to \<^verbatim>\<open>Array.prototype\<close> is
  inherited by every array under the names \<^verbatim>\<open>done\<close> and \<^verbatim>\<open>text\<close>.
\<close>

record assigned_props =
  done_prop :: "bool option"
  text_prop :: "jsstr option"

record runtime =
  inherited :: "jsstr \<Rightarrow> bool"
  assigned :: "jsstr \<Rightarrow> assigned_props"

text \<open>
  What \<^verbatim>\<open>sec.items[index]\<close> evaluates to: \<^verbatim>\<open>undefined\<close>, the item at a position,
  the number \<^verbatim>\<open>length\<close>, the inherited object of a name, or the boolean or string
  assigned to \<^verbatim>\<open>Array.prototype\<close>.
\<close>

datatype property = Undefined | Item nat | Num nat | Obj jsstr | Bool bool | Str jsstr

text \<open>The position whose decimal numeral is the key, among the positions from \<open>n\<close> on.\<close>

fun own_index :: "nat \<Rightarrow> 'a list \<Rightarrow> jsstr \<Rightarrow> nat option" where
  "own_index n [] k = None"
| "own_index n (x # xs) k = (if decimal n = k then Some n else own_index (Suc n) xs k)"

definition get_property :: "runtime \<Rightarrow> item list \<Rightarrow> jsstr option \<Rightarrow> property" where
  "get_property rt its key =
     (case key of
        None \<Rightarrow> Undefined
      | Some k \<Rightarrow>
          (case own_index 0 its k of
             Some n \<Rightarrow> Item n
           | None \<Rightarrow>
               if k = js ''length'' then Num (length its)
               else if inherited rt k then Obj k
               else if k = js ''done''
                 then (case done_prop (assigned rt (js ''__proto__'')) of
                         None \<Rightarrow> Undefined | Some b \<Rightarrow> Bool b)
               else if k = js ''text''
                 then (case text_prop (assigned rt (js ''__proto__'')) of
                         None \<Rightarrow> Undefined | Some t \<Rightarrow> Str t)
               else Undefined))"

text \<open>The truth value of the guard \<^verbatim>\<open>sec.items[index]\<close>.\<close>

fun truthy :: "property \<Rightarrow> bool" where
  "truthy Undefined = False"
| "truthy (Item n) = True"
| "truthy (Num n) = (n \<noteq> 0)"
| "truthy (Obj a) = True"
| "truthy (Bool b) = b"
| "truthy (Str s) = (s \<noteq> [])"

section \<open>The working copy and git\<close>

text \<open>
  git and the shell run outside the program. The model keeps the content of TODO.md in
  the working copy (\<open>None\<close> when the file does not exist) and in the commit HEAD, what
  \<^verbatim>\<open>git fetch origin\<close> would find at the tip of origin/master, whether the remote
  accepts a push, and the trace of what the program did to the outside. The working copy
  is taken to hold no other change than that of TODO.md.
\<close>

datatype remote = Unreachable | Tip "jsstr option"

datatype effect = PullLatest | WriteFile jsstr | CommitAndPush jsstr

type_synonym repository = "jsstr option \<times> jsstr option \<times> remote"

record world =
  todo_file :: "jsstr option"
  head_file :: "jsstr option"
  origin :: remote
  push_accepted :: bool
  shell :: "jsstr \<Rightarrow> repository \<Rightarrow> repository"
  runtime :: runtime
  trace :: "effect list"

text \<open>
  \<^verbatim>\<open>pullLatest\<close>: when a git command throws, the error is caught and the working copy
  stays as it is; otherwise HEAD and the working copy are reset to the tip of
  origin/master.
\<close>

definition pullLatest :: "world \<Rightarrow> world" where
  "pullLatest w =
     (case origin w of
        Unreachable \<Rightarrow> w\<lparr>trace := trace w @ [PullLatest]\<rparr>
      | Tip f \<Rightarrow> w\<lparr>todo_file := f, head_file := f, trace := trace w @ [PullLatest]\<rparr>)"

text \<open>
  The commit message goes into the command line between double quotes, with its double
  quotes escaped. A dollar sign, a backquote or a backslash in it is interpreted by the
  shell, and a NUL makes the call throw; what the command then does is not determined
  by the program, and is the parameter \<open>shell\<close> of the world.
\<close>

definition shell_inert :: "jsstr \<Rightarrow> bool" where
  "shell_inert message =
     list_all (\<lambda>c. c \<noteq> 0x24 \<and> c \<noteq> 0x60 \<and> c \<noteq> 0x5C \<and> c \<noteq> 0x00) message"

text \<open>
  \<^verbatim>\<open>commitAndPush\<close>: after \<^verbatim>\<open>git add TODO.md\<close>, an empty status (the working copy
  is what HEAD has) ends the call; otherwise the commit makes HEAD what the working copy
  has, and the push, when the remote is reached and accepts it, moves the tip of
  origin/master there. Every error is caught. The model records the call and its
  message.
\<close>

definition commitAndPush :: "jsstr \<Rightarrow> world \<Rightarrow> world" where
  "commitAndPush message w =
     (let w1 = w\<lparr>trace := trace w @ [CommitAndPush message]\<rparr> in
      if todo_file w = head_file w then w1
      else if \<not> shell_inert message
        then (case shell w message (todo_file w, head_file w, origin w) of
                (f, h, r) \<Rightarrow> w1\<lparr>todo_file := f, head_file := h, origin := r\<rparr>)
      else (let w2 = w1\<lparr>head_file := todo_file w\<rparr> in
            case origin w of
              Unreachable \<Rightarrow> w2
            | Tip t \<Rightarrow> if push_accepted w then w2\<lparr>origin := Tip (todo_file w)\<rparr> else w2))"

definition parseTodoMd :: "world \<Rightarrow> (js_error + data) \<times> world" where
  "parseTodoMd w =
     (let w1 = pullLatest w in
      case todo_file w1 of
        None \<Rightarrow> (Inr \<lparr>sections = [General]\<rparr>, w1)
      | Some content \<Rightarrow> (parse_content content, w1))"

definition saveTodoMd :: "data \<Rightarrow> jsstr \<Rightarrow> world \<Rightarrow> world" where
  "saveTodoMd d message w =
     (let md = serializeTodoMd d;
          w1 = w\<lparr>todo_file := Some md, trace := trace w @ [WriteFile md]\<rparr>
      in commitAndPush (if message = [] then js ''Update todos'' else message) w1)"

section \<open>The operations on the document\<close>

text \<open>
  \<^verbatim>\<open>data.sections.find(s => s.name === section)\<close> returns a reference to the first
  section with that name, or \<^verbatim>\<open>undefined\<close>. The reference is modelled as the
  position of the section in the array.
\<close>

fun find_ref :: "('a \<Rightarrow> bool) \<Rightarrow> 'a list \<Rightarrow> nat option" where
  "find_ref P [] = None"
| "find_ref P (x # xs) = (if P x then Some 0 else map_option Suc (find_ref P xs))"

text \<open>
  \<^verbatim>\<open>s.name === section\<close> for the field \<^verbatim>\<open>section\<close> of an item request, which may
  hold any value: the strict equality holds only for the string that is the name.
\<close>

definition named :: "json option \<Rightarrow> todo_section \<Rightarrow> bool" where
  "named section_field s \<longleftrightarrow> section_field = Some (JString (name s))"

text \<open>
  Each handler parses, changes the document in memory, saves when its guard holds, and
  answers with the document. The change in memory is a function from the parsed document
  to the document of the answer and the commit message, which is \<open>None\<close> when the guard
  fails and \<^verbatim>\<open>saveTodoMd\<close> is not called. The fields \<^verbatim>\<open>section\<close> and
  \<^verbatim>\<open>index\<close> of the item requests hold any JSON value or are absent; the fields
  \<^verbatim>\<open>text\<close> and \<^verbatim>\<open>name\<close> are taken to be strings, as the client sends them, and
  \<^verbatim>\<open>name\<close> of \<^verbatim>\<open>POST /api/sections\<close> may be absent.
\<close>

definition addItem :: "json option \<Rightarrow> jsstr \<Rightarrow> data \<Rightarrow> data \<times> jsstr option" where
  "addItem section_field tx d =
     (case find_ref (named section_field) (sections d) of
        None \<Rightarrow> (d, None)
      | Some k \<Rightarrow>
          (let sec = sections d ! k;
               sec' = sec\<lparr>items := items sec @ [\<lparr>item_done = False, item_text = tx\<rparr>]\<rparr>
           in (d\<lparr>sections := (sections d)[k := sec']\<rparr>, Some (js ''Add: '' @ tx))))"

text \<open>
  The three handlers that take an index read \<^verbatim>\<open>sec.items[index]\<close>, which can throw
  and can be something else than an item; they can assign to an inherited object, so
  they take the runtime and return it. The script is not in strict mode: an assignment
  to a property of a number, a boolean or a string does nothing.

  \<^verbatim>\<open>PUT /api/todos/toggle\<close>: for an inherited object the flag that is read and
  assigned is the property \<^verbatim>\<open>done\<close> of that object, and the text of the message its
  property \<^verbatim>\<open>text\<close>, \<^verbatim>\<open>undefined\<close> when never assigned.
\<close>

definition toggleItem ::
  "json option \<Rightarrow> json option \<Rightarrow> runtime \<Rightarrow> data \<Rightarrow> js_error + (data \<times> jsstr option \<times> runtime)" where
  "toggleItem section_field index rt d =
     (case find_ref (named section_field) (sections d) of
        None \<Rightarrow> Inr (d, None, rt)
      | Some k \<Rightarrow>
          (let sec = sections d ! k in
           case property_key index of
             Inl e \<Rightarrow> Inl e
           | Inr key \<Rightarrow>
               (case get_property rt (items sec) key of
                  Item n \<Rightarrow>
                    (let it = items sec ! n;
                         it' = it\<lparr>item_done := \<not> item_done it\<rparr>;
                         sec' = sec\<lparr>items := (items sec)[n := it']\<rparr>
                     in Inr (d\<lparr>sections := (sections d)[k := sec']\<rparr>,
                             Some ((if item_done it' then js ''Complete'' else js ''Reopen'')
                                   @ js '': '' @ item_text it'),
                             rt))
                | Obj a \<Rightarrow>
                    (let p = assigned rt a;
                         b = (case done_prop p of None \<Rightarrow> True | Some c \<Rightarrow> \<not> c);
                         rt' = rt\<lparr>assigned := (assigned rt)(a := p\<lparr>done_prop := Some b\<rparr>)\<rparr>
                     in Inr (d,
                             Some ((if b then js ''Complete'' else js ''Reopen'') @ js '': ''
                                   @ (case text_prop p of None \<Rightarrow> js ''undefined'' | Some t \<Rightarrow> t)),
                             rt'))
                | v \<Rightarrow>
                    if truthy v then Inr (d, Some (js ''Reopen: undefined''), rt)
                    else Inr (d, None, rt))))"

text \<open>\<^verbatim>\<open>PUT /api/todos/edit\<close>\<close>

definition editItem ::
  "json option \<Rightarrow> json option \<Rightarrow> jsstr \<Rightarrow> runtime \<Rightarrow> data \<Rightarrow>
     js_error + (data \<times> jsstr option \<times> runtime)" where
  "editItem section_field index tx rt d =
     (case find_ref (named section_field) (sections d) of
        None \<Rightarrow> Inr (d, None, rt)
      | Some k \<Rightarrow>
          (let sec = sections d ! k in
           case property_key index of
             Inl e \<Rightarrow> Inl e
           | Inr key \<Rightarrow>
               (case get_property rt (items sec) key of
                  Item n \<Rightarrow>
                    (let it = items sec ! n;
                         old = item_text it;
                         sec' = sec\<lparr>items := (items sec)[n := it\<lparr>item_text := tx\<rparr>]\<rparr>
                     in Inr (d\<lparr>sections := (sections d)[k := sec']\<rparr>,
                             Some (js ''Edit: '' @ [0x22] @ old @ [0x22, 0x20, 0x2192, 0x20, 0x22]
                                   @ tx @ [0x22]),
                             rt))
                | Obj a \<Rightarrow>
                    (let p = assigned rt a;
                         old = (case text_prop p of None \<Rightarrow> js ''undefined'' | Some t \<Rightarrow> t);
                         rt' = rt\<lparr>assigned := (assigned rt)(a := p\<lparr>text_prop := Some tx\<rparr>)\<rparr>
                     in Inr (d,
                             Some (js ''Edit: '' @ [0x22] @ old @ [0x22, 0x20, 0x2192, 0x20, 0x22]
                                   @ tx @ [0x22]),
                             rt'))
                | v \<Rightarrow>
                    if truthy v
                    then Inr (d,
                              Some (js ''Edit: '' @ [0x22] @ js ''undefined''
                                    @ [0x22, 0x20, 0x2192, 0x20, 0x22] @ tx @ [0x22]),
                              rt)
                    else Inr (d, None, rt))))"

text \<open>
  \<^verbatim>\<open>DELETE /api/todos\<close>: the guard is \<^verbatim>\<open>sec.items[index] !== undefined\<close>, and
  \<^verbatim>\<open>splice(index, 1)\<close> starts at \<^verbatim>\<open>ToIntegerOrInfinity(index)\<close>: the position of the
  item when the key is its numeral, and 0 when the key is a name, of which
  \<^verbatim>\<open>ToNumber\<close> makes NaN. When the section has no item to remove there,
  \<^verbatim>\<open>removed\<close> is \<^verbatim>\<open>undefined\<close> and \<^verbatim>\<open>removed.text\<close> throws.
\<close>

definition removeItem ::
  "json option \<Rightarrow> json option \<Rightarrow> runtime \<Rightarrow> data \<Rightarrow> js_error + (data \<times> jsstr option \<times> runtime)" where
  "removeItem section_field index rt d =
     (case find_ref (named section_field) (sections d) of
        None \<Rightarrow> Inr (d, None, rt)
      | Some k \<Rightarrow>
          (let sec = sections d ! k in
           case property_key index of
             Inl e \<Rightarrow> Inl e
           | Inr key \<Rightarrow>
               (case get_property rt (items sec) key of
                  Undefined \<Rightarrow> Inr (d, None, rt)
                | Item n \<Rightarrow>
                    (let removed = items sec ! n;
                         sec' = sec\<lparr>items := take n (items sec) @ drop (Suc n) (items sec)\<rparr>
                     in Inr (d\<lparr>sections := (sections d)[k := sec']\<rparr>,
                             Some (js ''Remove: '' @ item_text removed),
                             rt))
                | v \<Rightarrow>
                    (case items sec of
                       [] \<Rightarrow> Inl TypeError
                     | removed # rest \<Rightarrow>
                         Inr (d\<lparr>sections := (sections d)[k := sec\<lparr>items := rest\<rparr>]\<rparr>,
                              Some (js ''Remove: '' @ item_text removed),
                              rt)))))"

definition addSection :: "jsstr option \<Rightarrow> data \<Rightarrow> data \<times> jsstr option" where
  "addSection nm d =
     (case nm of
        None \<Rightarrow> (d, None)
      | Some n \<Rightarrow>
          if n \<noteq> [] \<and> find_ref (\<lambda>s. name s = n) (sections d) = None
          then (d\<lparr>sections := sections d @ [\<lparr>name = n, items = []\<rparr>]\<rparr>,
                Some (js ''Add section: '' @ n))
          else (d, None))"


text \<open>
  A handler: the answer is the error of the parser, or \<^verbatim>\<open>res.json(data)\<close>; the world
  after it has the pull of \<^verbatim>\<open>parseTodoMd\<close> and, when the guard held, the save.
\<close>

definition handler :: "(data \<Rightarrow> data \<times> jsstr option) \<Rightarrow> world \<Rightarrow> (js_error + data) \<times> world" where
  "handler f w =
     (case parseTodoMd w of
        (Inl e, w1) \<Rightarrow> (Inl e, w1)
      | (Inr d, w1) \<Rightarrow>
          (case f d of
             (d', None) \<Rightarrow> (Inr d', w1)
           | (d', Some message) \<Rightarrow> (Inr d', saveTodoMd d' message w1)))"

text \<open>
  A handler that takes an index: an error thrown by the change in memory is the answer,
  and nothing is saved; otherwise the runtime is the one the change left.
\<close>

definition index_handler ::
  "(runtime \<Rightarrow> data \<Rightarrow> js_error + (data \<times> jsstr option \<times> runtime)) \<Rightarrow> world \<Rightarrow>
     (js_error + data) \<times> world" where
  "index_handler f w =
     (case parseTodoMd w of
        (Inl e, w1) \<Rightarrow> (Inl e, w1)
      | (Inr d, w1) \<Rightarrow>
          (case f (runtime w1) d of
             Inl e \<Rightarrow> (Inl e, w1)
           | Inr (d', None, rt) \<Rightarrow> (Inr d', w1\<lparr>runtime := rt\<rparr>)
           | Inr (d', Some message, rt) \<Rightarrow>
               (Inr d', saveTodoMd d' message (w1\<lparr>runtime := rt\<rparr>))))"

definition post_api_todos :: "json option \<Rightarrow> jsstr \<Rightarrow> world \<Rightarrow> (js_error + data) \<times> world" where
  "post_api_todos section_field tx = handler (addItem section_field tx)"

definition put_api_todos_toggle ::
  "json option \<Rightarrow> json option \<Rightarrow> world \<Rightarrow> (js_error + data) \<times> world" where
  "put_api_todos_toggle section_field index = index_handler (toggleItem section_field index)"

definition put_api_todos_edit ::
  "json option \<Rightarrow> json option \<Rightarrow> jsstr \<Rightarrow> world \<Rightarrow> (js_error + data) \<times> world" where
  "put_api_todos_edit section_field index tx = index_handler (editItem section_field index tx)"

definition delete_api_todos ::
  "json option \<Rightarrow> json option \<Rightarrow> world \<Rightarrow> (js_error + data) \<times> world" where
  "delete_api_todos section_field index = index_handler (removeItem section_field index)"

definition post_api_sections :: "jsstr option \<Rightarrow> world \<Rightarrow> (js_error + data) \<times> world" where
  "post_api_sections nm = handler (addSection nm)"


section \<open>Predicates and notions of the specification\<close>

text \<open>A string without a trimmable code unit at either end: what \<open>trim\<close> leaves.\<close>

definition trimmed :: "jsstr \<Rightarrow> bool" where
  "trimmed s \<longleftrightarrow> s = [] \<or> (\<not> isTrimmable (hd s) \<and> \<not> isTrimmable (last s))"

definition normalized :: "todo_section \<Rightarrow> bool" where
  "normalized s \<longleftrightarrow> trimmed (name s) \<and> list_all (\<lambda>i. trimmed (item_text i)) (items s)"

text \<open>
  The texts that survive a round trip: not empty, without a line terminator, and without
  white space at either end.
\<close>

definition plain :: "jsstr \<Rightarrow> bool" where
  "plain s \<longleftrightarrow> s \<noteq> [] \<and> list_all (\<lambda>u. \<not> isLineTerminator u) s \<and> trimmed s"

definition plain_section :: "todo_section \<Rightarrow> bool" where
  "plain_section s \<longleftrightarrow> plain (name s) \<and> list_all (\<lambda>i. plain (item_text i)) (items s)"

definition plain_document :: "data \<Rightarrow> bool" where
  "plain_document d \<longleftrightarrow> sections d \<noteq> [] \<and> list_all plain_section (sections d)"

text \<open>The lines that \<open>serializeTodoMd\<close> writes, each of them ended by a line feed.\<close>

definition item_line :: "item \<Rightarrow> jsstr" where
  "item_line it =
     js ''- ['' @ (if item_done it then js ''x'' else js '' '') @ js ''] '' @ item_text it"

definition section_lines :: "todo_section \<Rightarrow> jsstr list" where
  "section_lines s = [[], js ''## '' @ name s, []] @ map item_line (items s)"

definition unlines :: "jsstr list \<Rightarrow> jsstr" where
  "unlines ls = concat (map (\<lambda>l. l @ [0x0A]) ls)"

text \<open>What \<^verbatim>\<open>sec.items[index]\<close> evaluates to, or the error it throws.\<close>

definition item_property :: "runtime \<Rightarrow> item list \<Rightarrow> json option \<Rightarrow> js_error + property" where
  "item_property rt its index =
     (case property_key index of Inl e \<Rightarrow> Inl e | Inr key \<Rightarrow> Inr (get_property rt its key))"

text \<open>
  An address that reaches nothing: no section has the name, or the key of the index
  names no property of the item list of the first section of that name.
\<close>

definition no_such_item :: "json option \<Rightarrow> json option \<Rightarrow> runtime \<Rightarrow> data \<Rightarrow> bool" where
  "no_such_item section_field index rt d =
     (case find_ref (named section_field) (sections d) of
        None \<Rightarrow> True
      | Some k \<Rightarrow> item_property rt (items (sections d ! k)) index = Inr Undefined)"

text \<open>The document with the item at position \<open>n\<close> of the section at position \<open>k\<close> replaced.\<close>

definition with_item :: "nat \<Rightarrow> nat \<Rightarrow> item \<Rightarrow> data \<Rightarrow> data" where
  "with_item k n it d =
     d\<lparr>sections := (sections d)[k := (sections d ! k)\<lparr>items := (items (sections d ! k))[n := it]\<rparr>]\<rparr>"


text \<open>What the trace says of the writes of TODO.md and of the calls of \<open>commitAndPush\<close>.\<close>

definition file_writes :: "world \<Rightarrow> jsstr list" where
  "file_writes w = concat (map (\<lambda>e. case e of WriteFile md \<Rightarrow> [md] | _ \<Rightarrow> []) (trace w))"

definition publish_attempts :: "world \<Rightarrow> jsstr list" where
  "publish_attempts w =
     concat (map (\<lambda>e. case e of CommitAndPush m \<Rightarrow> [m] | _ \<Rightarrow> []) (trace w))"

text \<open>
  For the examples: the names that an array inherits in a current Node.js, a runtime in
  which nothing was assigned yet, and a world whose remote is not reached, with the
  given TODO.md in the working copy and in HEAD.
\<close>

definition inherited_names :: "jsstr list" where
  "inherited_names = map js
     [''constructor'', ''at'', ''concat'', ''copyWithin'', ''fill'', ''find'', ''findIndex'',
      ''findLast'', ''findLastIndex'', ''lastIndexOf'', ''pop'', ''push'', ''reverse'',
      ''shift'', ''unshift'', ''slice'', ''sort'', ''splice'', ''includes'', ''indexOf'',
      ''join'', ''keys'', ''entries'', ''values'', ''forEach'', ''filter'', ''flat'',
      ''flatMap'', ''map'', ''every'', ''some'', ''reduce'', ''reduceRight'',
      ''toLocaleString'', ''toString'', ''toReversed'', ''toSorted'', ''toSpliced'', ''with'',
      ''hasOwnProperty'', ''isPrototypeOf'', ''propertyIsEnumerable'', ''valueOf'',
      ''__defineGetter__'', ''__defineSetter__'', ''__lookupGetter__'', ''__lookupSetter__'',
      ''__proto__'']"

definition node_runtime :: runtime where
  "node_runtime =
     \<lparr>inherited = (\<lambda>k. k \<in> set inherited_names),
      assigned = (\<lambda>a. \<lparr>done_prop = None, text_prop = None\<rparr>)\<rparr>"

definition offline :: "jsstr option \<Rightarrow> world" where
  "offline f =
     \<lparr>todo_file = f, head_file = f, origin = Unreachable, push_accepted = False,
      shell = (\<lambda>message r. r), runtime = node_runtime, trace = []\<rparr>"

text \<open>The number that a string of decimal digits writes.\<close>

definition digit_value :: "jsstr \<Rightarrow> nat" where
  "digit_value s = foldl (\<lambda>a c. 10 * a + (unat c - 48)) 0 s"

section \<open>Lemmas\<close>

lemma parse_line_section:
  "match_section l = Some g \<Longrightarrow>
   parse_line l (secs, cur) = Inr (secs @ [\<lparr>name = trim g, items = []\<rparr>], Some (length secs))"
  by (simp add: parse_line_def)

lemma parse_line_item:
  "match_section l = None \<Longrightarrow> match_item l = Some (m, t) \<Longrightarrow>
   parse_line l (secs, Some k) =
     Inr (secs[k := (secs ! k)\<lparr>items := items (secs ! k)
            @ [\<lparr>item_done = (m \<noteq> 0x20), item_text = trim t\<rparr>]\<rparr>], Some k)"
  by (simp add: parse_line_def items_push_def)

lemma parse_line_item_null:
  "match_section l = None \<Longrightarrow> parse_line l (secs, None) = Inr (secs, None)"
  by (simp add: parse_line_def split: option.splits)

lemma parse_line_skip:
  "match_section l = None \<Longrightarrow> match_item l = None \<Longrightarrow> parse_line l st = Inr st"
  by (simp add: parse_line_def split: prod.splits)

lemma parse_line_returns: "\<exists>st'. parse_line l st = Inr st'"
  by (cases st; cases "match_section l"; cases "match_item l")
     (auto simp: parse_line_def items_push_def split: option.splits)

lemma parse_lines_returns: "\<exists>st'. parse_lines ls st = Inr st'"
proof (induction ls arbitrary: st)
  case Nil
  show ?case by simp
next
  case (Cons l ls)
  obtain st1 where "parse_line l st = Inr st1"
    using parse_line_returns by blast
  with Cons.IH [of st1] show ?case by simp
qed

lemma parse_content_returns: "\<exists>d. parse_content c = Inr d"
proof -
  obtain st where "parse_lines (split_nl c) ([], None) = Inr st"
    using parse_lines_returns by blast
  then show ?thesis by (cases st) (simp add: parse_content_def)
qed

lemma parse_lines_append:
  "parse_lines (xs @ ys) st =
     (case parse_lines xs st of Inl e \<Rightarrow> Inl e | Inr st' \<Rightarrow> parse_lines ys st')"
  by (induction xs arbitrary: st) (auto split: sum.splits)

lemma parse_lines_no_header:
  "list_all (\<lambda>l. match_section l = None) ls \<Longrightarrow> parse_lines ls ([], None) = Inr ([], None)"
  by (induction ls) (auto simp: parse_line_item_null)

lemma last_dropWhile: "dropWhile P xs \<noteq> [] \<Longrightarrow> last (dropWhile P xs) = last xs"
  by (induction xs) (auto split: if_splits)

lemma trimmed_trim: "trimmed (trim s)"
proof (cases "trim s = []")
  case True
  then show ?thesis by (simp add: trimmed_def)
next
  case False
  define a where "a = dropWhile isTrimmable s"
  define b where "b = dropWhile isTrimmable (rev a)"
  have t: "trim s = rev b" by (simp add: trim_def a_def b_def)
  with False have b: "b \<noteq> []" by simp
  then have a: "a \<noteq> []" by (auto simp: b_def)
  have "\<not> isTrimmable (hd b)" using b unfolding b_def by (rule hd_dropWhile)
  then have 1: "\<not> isTrimmable (last (trim s))" using b by (simp add: t last_rev)
  have "last b = last (rev a)" using b unfolding b_def by (rule last_dropWhile)
  then have "hd (trim s) = hd a" using a b by (simp add: t hd_rev last_rev)
  moreover have "\<not> isTrimmable (hd a)" using a unfolding a_def by (rule hd_dropWhile)
  ultimately show ?thesis using 1 by (simp add: trimmed_def)
qed

lemma dropWhile_hd: "xs \<noteq> [] \<Longrightarrow> \<not> P (hd xs) \<Longrightarrow> dropWhile P xs = xs"
  by (cases xs) auto

lemma trim_trimmed: "trimmed s \<Longrightarrow> trim s = s"
proof (cases "s = []")
  case True
  then show ?thesis by (simp add: trim_def)
next
  case False
  assume "trimmed s"
  with False have h: "\<not> isTrimmable (hd s)" and l: "\<not> isTrimmable (last s)"
    by (simp_all add: trimmed_def)
  have "dropWhile isTrimmable s = s" using False h by (rule dropWhile_hd)
  moreover have "dropWhile isTrimmable (rev s) = rev s"
    using False l by (intro dropWhile_hd) (simp_all add: hd_rev)
  ultimately show ?thesis by (simp add: trim_def)
qed

lemma normalized_General: "normalized General"
  by (simp add: normalized_def trimmed_def General_def js_def isTrimmable_def isWhiteSpace_def
      isLineTerminator_def)

lemma parse_line_normalized:
  assumes "parse_line l (secs, cur) = Inr (secs', cur')" and "list_all normalized secs"
  shows "list_all normalized secs'"
proof (cases "match_section l")
  case (Some g)
  with assms show ?thesis
    by (auto simp: parse_line_section normalized_def trimmed_trim)
next
  case None
  note ns = this
  show ?thesis
  proof (cases "match_item l")
    case None
    with ns assms show ?thesis by (simp add: parse_line_skip)
  next
    case (Some mt)
    obtain m t where mt: "mt = (m, t)" by (cases mt)
    show ?thesis
    proof (cases cur)
      case None
      with ns assms show ?thesis by (simp add: parse_line_item_null)
    next
      case (Some k)
      let ?it = "\<lparr>item_done = (m \<noteq> 0x20), item_text = trim t\<rparr>"
      have eq: "secs' = secs[k := (secs ! k)\<lparr>items := items (secs ! k) @ [?it]\<rparr>]"
        using assms(1) ns \<open>match_item l = Some mt\<close> mt Some by (simp add: parse_line_item)
      show ?thesis
      proof (cases "k < length secs")
        case True
        then have "normalized (secs ! k)" using assms(2) by (simp add: list_all_length)
        then have "normalized ((secs ! k)\<lparr>items := items (secs ! k) @ [?it]\<rparr>)"
          by (simp add: normalized_def trimmed_trim)
        with assms(2) show ?thesis unfolding eq list_all_iff
          by (auto dest: set_update_subset_insert [THEN subsetD])
      next
        case False
        then have "secs' = secs" unfolding eq by (intro list_update_beyond) simp
        then show ?thesis using assms(2) by simp
      qed
    qed
  qed
qed

lemma parse_lines_normalized:
  "parse_lines ls st = Inr st' \<Longrightarrow> list_all normalized (fst st) \<Longrightarrow> list_all normalized (fst st')"
proof (induction ls arbitrary: st)
  case Nil
  then show ?case by simp
next
  case (Cons l ls)
  obtain st1 where s1: "parse_line l st = Inr st1"
    using parse_line_returns by blast
  then have "list_all normalized (fst st1)"
    using parse_line_normalized [of l "fst st" "snd st" "fst st1" "snd st1"] Cons.prems(2)
    by simp
  moreover have "parse_lines ls st1 = Inr st'" using Cons.prems(1) s1 by simp
  ultimately show ?case by (rule Cons.IH [rotated])
qed

lemma parse_content_normalized:
  assumes "parse_content c = Inr d" shows "list_all normalized (sections d)"
proof -
  obtain secs cur where p: "parse_lines (split_nl c) ([], None) = Inr (secs, cur)"
    using parse_lines_returns by (metis surj_pair)
  then have "list_all normalized secs"
    using parse_lines_normalized [OF p] by simp
  with assms p show ?thesis
    by (auto simp: parse_content_def normalized_General split: if_splits)
qed

lemma split_nl_line:
  "0x0A \<notin> set l \<Longrightarrow> split_nl (l @ 0x0A # cs) = l # split_nl cs"
  by (induction l) auto

lemma split_nl_unlines:
  "list_all (\<lambda>l. 0x0A \<notin> set l) ls \<Longrightarrow> split_nl (unlines ls) = ls @ [[]]"
  by (induction ls) (auto simp: unlines_def split_nl_line)

lemma unlines_append: "unlines (xs @ ys) = unlines xs @ unlines ys"
  by (simp add: unlines_def)

lemma serialize_item_line: "serialize_item it = item_line it @ [0x0A]"
  by (simp add: serialize_item_def item_line_def)

lemma serialize_items_lines: "concat (map serialize_item its) = unlines (map item_line its)"
  by (induction its) (simp_all add: unlines_def serialize_item_line)

lemma serialize_section_lines: "serialize_section s = unlines (section_lines s)"
  by (simp add: serialize_section_def section_lines_def serialize_items_lines)
     (simp add: unlines_def)

lemma serialize_sections_lines:
  "concat (map serialize_section ss) = unlines (concat (map section_lines ss))"
  by (induction ss) (simp_all add: unlines_append serialize_section_lines, simp add: unlines_def)

lemma serialize_lines:
  "serializeTodoMd d = unlines (js ''# Todo List'' # concat (map section_lines (sections d)))"
  by (simp add: serializeTodoMd_def serialize_sections_lines) (simp add: unlines_def)

lemma plain_no_nl: "plain s \<Longrightarrow> 0x0A \<notin> set s"
  by (auto simp: plain_def list_all_iff isLineTerminator_def)

lemma js_no_nl: "0x0A \<notin> set (js ''## '')" "0x0A \<notin> set (js ''- ['')" "0x0A \<notin> set (js ''] '')"
  "0x0A \<notin> set (js ''x'')" "0x0A \<notin> set (js '' '')" "0x0A \<notin> set (js ''# Todo List'')"
  by (simp_all add: js_def)

lemma section_lines_no_nl:
  "plain_section s \<Longrightarrow> list_all (\<lambda>l. 0x0A \<notin> set l) (section_lines s)"
  by (auto simp: plain_section_def section_lines_def item_line_def list_all_iff js_no_nl
      dest: plain_no_nl)

lemma match_header: "plain n \<Longrightarrow> match_section (js ''## '' @ n) = Some n"
  by (simp add: js_def plain_def)

lemma match_item_line:
  "plain (item_text it) \<Longrightarrow>
   match_section (item_line it) = None \<and>
   match_item (item_line it) = Some (if item_done it then 0x78 else 0x20, item_text it)"
  by (simp add: js_def plain_def item_line_def)

lemma parse_item_lines:
  "list_all (\<lambda>i. plain (item_text i)) its \<Longrightarrow>
   parse_lines (map item_line its) (secs @ [s], Some (length secs)) =
     Inr (secs @ [s\<lparr>items := items s @ its\<rparr>], Some (length secs))"
proof (induction its arbitrary: s)
  case Nil
  then show ?case by simp
next
  case (Cons i its)
  then have p: "plain (item_text i)" by simp
  then have t: "trim (item_text i) = item_text i" by (simp add: plain_def trim_trimmed)
  have "parse_line (item_line i) (secs @ [s], Some (length secs)) =
          Inr (secs @ [s\<lparr>items := items s @ [i]\<rparr>], Some (length secs))"
    using match_item_line [OF p] by (simp add: parse_line_item t)
  with Cons.IH [of "s\<lparr>items := items s @ [i]\<rparr>"] Cons.prems show ?case by simp
qed

lemma parse_section_lines:
  assumes "plain_section s"
  shows "parse_lines (section_lines s) (secs, cur) = Inr (secs @ [s], Some (length secs))"
proof -
  have e: "match_section [] = None" "match_item [] = None" by simp_all
  have n: "trim (name s) = name s" and h: "match_section (js ''## '' @ name s) = Some (name s)"
    using assms by (simp_all add: plain_section_def plain_def trim_trimmed match_header)
  have "parse_lines (section_lines s) (secs, cur) =
          parse_lines ([] # map item_line (items s))
            (secs @ [\<lparr>name = name s, items = []\<rparr>], Some (length secs))"
    by (simp add: section_lines_def parse_line_skip e parse_line_section [OF h] n)
  also have "\<dots> = parse_lines (map item_line (items s))
            (secs @ [\<lparr>name = name s, items = []\<rparr>], Some (length secs))"
    by (simp add: parse_line_skip e)
  also have "\<dots> = Inr (secs @ [s], Some (length secs))"
    using assms by (simp add: parse_item_lines plain_section_def)
  finally show ?thesis .
qed

lemma parse_sections_lines:
  "list_all plain_section ss \<Longrightarrow>
   \<exists>cur'. parse_lines (concat (map section_lines ss)) (secs, cur) = Inr (secs @ ss, cur')"
proof (induction ss arbitrary: secs cur)
  case Nil
  then show ?case by simp
next
  case (Cons s ss)
  then have "plain_section s" and "list_all plain_section ss" by simp_all
  with Cons.IH [of "secs @ [s]" "Some (length secs)"] show ?case
    by (auto simp: parse_lines_append parse_section_lines)
qed

lemma title_skipped: "parse_line (js ''# Todo List'') st = Inr st"
  by (rule parse_line_skip) (simp_all add: js_def)

lemma parse_serialize_plain:
  assumes "plain_document d"
  shows "parse_content (serializeTodoMd d) = Inr d"
proof -
  let ?ls = "js ''# Todo List'' # concat (map section_lines (sections d))"
  have ps: "list_all plain_section (sections d)" and ne: "sections d \<noteq> []"
    using assms by (simp_all add: plain_document_def)
  have "list_all (\<lambda>l. 0x0A \<notin> set l) ?ls"
    using ps by (auto simp: list_all_iff js_no_nl dest: section_lines_no_nl [unfolded list_all_iff])
  then have sp: "split_nl (serializeTodoMd d) = ?ls @ [[]]"
    by (simp only: serialize_lines split_nl_unlines)
  obtain cur' where
    "parse_lines (concat (map section_lines (sections d))) ([], None) = Inr (sections d, cur')"
    using parse_sections_lines [OF ps, of "[]" None] by auto
  then have "parse_lines (?ls @ [[]]) ([], None) = Inr (sections d, cur')"
    by (simp add: title_skipped parse_lines_append parse_line_skip)
  then show ?thesis using ne by (simp add: parse_content_def sp)
qed

lemma handler_unchanged:
  "fst (parseTodoMd w) = Inr d \<Longrightarrow> f d = (d, None) \<Longrightarrow> handler f w = parseTodoMd w"
  by (cases "parseTodoMd w") (simp add: handler_def)


lemma parseTodoMd_world: "snd (parseTodoMd w) = pullLatest w"
  by (simp add: parseTodoMd_def Let_def split: option.splits)

lemma parseTodoMd_returns: "\<exists>d. fst (parseTodoMd w) = Inr d"
  using parse_content_returns by (auto simp: parseTodoMd_def Let_def split: option.splits)

lemma trace_pullLatest: "trace (pullLatest w) = trace w @ [PullLatest]"
  by (simp add: pullLatest_def split: remote.splits)

lemma find_ref_None: "find_ref P xs = None \<longleftrightarrow> \<not> list_ex P xs"
  by (induction xs) auto

lemma find_ref_Some: "find_ref P xs = Some k \<Longrightarrow> k < length xs \<and> P (xs ! k)"
  by (induction xs arbitrary: k) (auto split: if_splits)

lemma find_ref_update:
  "find_ref P xs = Some k \<Longrightarrow> P y \<Longrightarrow> find_ref P (xs[k := y]) = Some k"
  by (induction xs arbitrary: k) (auto split: if_splits)

lemma find_ref_distinct:
  "distinct (map f xs) \<Longrightarrow> k < length xs \<Longrightarrow> f (xs ! k) = n \<Longrightarrow>
   find_ref (\<lambda>s. f s = n) xs = Some k"
proof (induction xs arbitrary: k)
  case Nil
  then show ?case by simp
next
  case (Cons x xs)
  show ?case
  proof (cases k)
    case 0
    with Cons.prems show ?thesis by simp
  next
    case (Suc j)
    with Cons.prems have j: "j < length xs" "f (xs ! j) = n" by simp_all
    then have "n \<in> f ` set xs" by (metis imageI nth_mem)
    with Cons.prems(1) have "f x \<noteq> n" by auto
    moreover have "find_ref (\<lambda>s. f s = n) xs = Some j"
      using Cons.IH [of j] Cons.prems(1) j by simp
    ultimately show ?thesis by (simp add: Suc)
  qed
qed






lemma addSection_existing:
  "find_ref (\<lambda>s. name s = n) (sections d) \<noteq> None \<Longrightarrow> addSection (Some n) d = (d, None)"
  by (simp add: addSection_def)

lemma addSection_new:
  "n \<noteq> [] \<Longrightarrow> find_ref (\<lambda>s. name s = n) (sections d) = None \<Longrightarrow>
   addSection (Some n) d =
     (d\<lparr>sections := sections d @ [\<lparr>name = n, items = []\<rparr>]\<rparr>, Some (js ''Add section: '' @ n))"
  by (simp add: addSection_def)

lemma addSection_falsy: "nm = None \<or> nm = Some [] \<Longrightarrow> addSection nm d = (d, None)"
  by (auto simp: addSection_def)

lemma unat_digit: "k < 10 \<Longrightarrow> unat (of_nat (48 + k) :: jschar) = 48 + k"
  by (simp only: unat_of_nat) simp

lemma digit_value_decimal: "digit_value (decimal n) = n"
proof (induction n rule: decimal.induct)
  case (1 n)
  show ?case
  proof (cases "n < 10")
    case True
    with unat_digit [of n] show ?thesis
      by (simp add: decimal.simps [of n] digit_value_def del: of_nat_add)
  next
    case False
    have "unat (of_nat (48 + n mod 10) :: jschar) = 48 + n mod 10"
      by (rule unat_digit) simp
    with False "1.IH" show ?thesis
      by (simp add: decimal.simps [of n] digit_value_def del: of_nat_add)
  qed
qed

lemma decimal_inject: "decimal m = decimal n \<Longrightarrow> m = n"
  using digit_value_decimal by metis

lemma decimal_digits: "list_all (\<lambda>c. 48 \<le> c \<and> c \<le> 57) (decimal n)"
proof (induction n rule: decimal.induct)
  case (1 n)
  have d: "48 \<le> (of_nat (48 + k) :: jschar) \<and> (of_nat (48 + k) :: jschar) \<le> 57" if "k < 10" for k
    using that unat_digit [of k] by (simp add: word_le_nat_alt del: of_nat_add)
  show ?case
  proof (cases "n < 10")
    case True
    then show ?thesis using d [of n] by (simp add: decimal.simps [of n] del: of_nat_add)
  next
    case False
    then show ?thesis using "1.IH" d [of "n mod 10"]
      by (simp add: decimal.simps [of n] del: of_nat_add)
  qed
qed

lemma decimal_not_Nil: "decimal n \<noteq> []"
  by (subst decimal.simps) simp

lemma decimal_not_name:
  "decimal n \<noteq> js ''length''" "decimal n \<noteq> js ''done''" "decimal n \<noteq> js ''text''"
  using decimal_digits [of n] by (auto simp: js_def)

lemma own_index_Some:
  "own_index m xs k = Some n \<Longrightarrow> m \<le> n \<and> n < m + length xs \<and> decimal n = k"
  by (induction xs arbitrary: m) (fastforce split: if_splits)+

lemma own_index_decimal:
  "own_index m xs (decimal n) = (if m \<le> n \<and> n < m + length xs then Some n else None)"
proof (induction xs arbitrary: m)
  case Nil
  then show ?case by simp
next
  case (Cons x xs)
  show ?case
  proof (cases "m = n")
    case True
    then show ?thesis by simp
  next
    case False
    then have "decimal m \<noteq> decimal n" using decimal_inject by blast
    with False show ?thesis by (auto simp: Cons.IH)
  qed
qed

lemma own_index_length:
  "length xs = length ys \<Longrightarrow> own_index m xs k = own_index m ys k"
  by (induction xs ys arbitrary: m rule: list_induct2) auto

lemma get_property_length:
  "length xs = length ys \<Longrightarrow> get_property rt xs key = get_property rt ys key"
proof -
  assume l: "length xs = length ys"
  then have "own_index 0 xs k = own_index 0 ys k" for k
    by (rule own_index_length)
  then show ?thesis unfolding get_property_def l by (cases key) simp_all
qed

lemma item_property_length:
  "length xs = length ys \<Longrightarrow> item_property rt xs index = item_property rt ys index"
  unfolding item_property_def by (simp add: get_property_length [of xs ys] cong: sum.case_cong)

lemma get_property_Item:
  "get_property rt its key = Item n \<Longrightarrow> n < length its"
  by (auto simp: get_property_def split: option.splits if_splits dest: own_index_Some)

lemma item_property_Item:
  "item_property rt its index = Inr (Item n) \<Longrightarrow> n < length its"
  by (auto simp: item_property_def split: sum.splits dest: get_property_Item)

lemma item_property_number:
  "item_property rt its (Some (JNumber OtherNumber)) = Inr Undefined"
  "item_property rt its (Some (JNumber (Index n))) =
     Inr (if n < length its \<and> n < 10 ^ 21 then Item n
          else if n < 10 ^ 21 \<and> inherited rt (decimal n) then Obj (decimal n)
          else Undefined)"
  by (simp_all add: item_property_def property_key_def get_property_def own_index_decimal
      decimal_not_name)

lemma runtime_pullLatest: "runtime (pullLatest w) = runtime w"
  by (simp add: pullLatest_def split: remote.splits)

lemma parseTodoMd_pair: "fst (parseTodoMd w) = Inr d \<Longrightarrow> parseTodoMd w = (Inr d, pullLatest w)"
  using parseTodoMd_world [of w] by (cases "parseTodoMd w") simp

lemma index_handler_unchanged:
  assumes "fst (parseTodoMd w) = Inr d" and "f (runtime w) d = Inr (d, None, runtime w)"
  shows "index_handler f w = (Inr d, pullLatest w)"
  using assms(2) runtime_pullLatest [of w]
  by (simp add: index_handler_def parseTodoMd_pair [OF assms(1)])

lemma index_handler_saved:
  assumes "fst (parseTodoMd w) = Inr d" and "f (runtime w) d = Inr (d', Some m, rt)"
  shows "index_handler f w = (Inr d', saveTodoMd d' m ((pullLatest w)\<lparr>runtime := rt\<rparr>))"
  using assms(2) runtime_pullLatest [of w]
  by (simp add: index_handler_def parseTodoMd_pair [OF assms(1)])

lemma index_handler_throws:
  assumes "fst (parseTodoMd w) = Inr d" and "f (runtime w) d = Inl e"
  shows "index_handler f w = (Inl e, pullLatest w)"
  using assms(2) runtime_pullLatest [of w]
  by (simp add: index_handler_def parseTodoMd_pair [OF assms(1)])

lemma addItem_noop:
  "find_ref (named sf) (sections d) = None \<Longrightarrow> addItem sf tx d = (d, None)"
  by (simp add: addItem_def)

lemma toggleItem_noop:
  assumes "no_such_item sf index rt d" shows "toggleItem sf index rt d = Inr (d, None, rt)"
proof (cases "find_ref (named sf) (sections d)")
  case None
  then show ?thesis by (simp add: toggleItem_def)
next
  case (Some k)
  with assms obtain key where "property_key index = Inr key"
    and "get_property rt (items (sections d ! k)) key = Undefined"
    by (auto simp: no_such_item_def item_property_def split: sum.splits)
  with Some show ?thesis by (simp add: toggleItem_def)
qed

lemma editItem_noop:
  assumes "no_such_item sf index rt d" shows "editItem sf index tx rt d = Inr (d, None, rt)"
proof (cases "find_ref (named sf) (sections d)")
  case None
  then show ?thesis by (simp add: editItem_def)
next
  case (Some k)
  with assms obtain key where "property_key index = Inr key"
    and "get_property rt (items (sections d ! k)) key = Undefined"
    by (auto simp: no_such_item_def item_property_def split: sum.splits)
  with Some show ?thesis by (simp add: editItem_def)
qed

lemma removeItem_noop:
  assumes "no_such_item sf index rt d" shows "removeItem sf index rt d = Inr (d, None, rt)"
proof (cases "find_ref (named sf) (sections d)")
  case None
  then show ?thesis by (simp add: removeItem_def)
next
  case (Some k)
  with assms obtain key where "property_key index = Inr key"
    and "get_property rt (items (sections d ! k)) key = Undefined"
    by (auto simp: no_such_item_def item_property_def split: sum.splits)
  with Some show ?thesis by (simp add: removeItem_def)
qed

lemma toggleItem_item:
  assumes f: "find_ref (named sf) (sections d) = Some k"
    and p: "item_property rt (items (sections d ! k)) index = Inr (Item n)"
  shows "toggleItem sf index rt d =
     Inr (with_item k n ((items (sections d ! k) ! n)\<lparr>item_done := \<not> item_done (items (sections d ! k) ! n)\<rparr>) d,
          Some ((if item_done (items (sections d ! k) ! n) then js ''Reopen'' else js ''Complete'')
                @ js '': '' @ item_text (items (sections d ! k) ! n)),
          rt)"
proof -
  from p obtain key where "property_key index = Inr key"
    and "get_property rt (items (sections d ! k)) key = Item n"
    by (auto simp: item_property_def split: sum.splits)
  with f show ?thesis by (simp add: toggleItem_def with_item_def Let_def)
qed

lemma with_item_find_ref:
  "find_ref (named sf) (sections d) = Some k \<Longrightarrow>
   find_ref (named sf) (sections (with_item k n it d)) = Some k"
proof -
  assume f: "find_ref (named sf) (sections d) = Some k"
  then have "named sf (sections d ! k)" using find_ref_Some by blast
  then have "named sf ((sections d ! k)\<lparr>items := (items (sections d ! k))[n := it]\<rparr>)"
    by (simp add: named_def)
  with f show ?thesis by (simp add: with_item_def find_ref_update)
qed

lemma with_item_items:
  "k < length (sections d) \<Longrightarrow>
   items (sections (with_item k n it d) ! k) = (items (sections d ! k))[n := it]"
  by (simp add: with_item_def)

lemma with_item_twice:
  "k < length (sections d) \<Longrightarrow> with_item k n (items (sections d ! k) ! n) (with_item k n it d) = d"
  by (simp add: with_item_def)

lemma toggleItem_twice:
  assumes f: "find_ref (named sf) (sections d) = Some k"
    and p: "item_property rt (items (sections d ! k)) index = Inr (Item n)"
  shows "toggleItem sf index rt
           (with_item k n ((items (sections d ! k) ! n)\<lparr>item_done := \<not> item_done (items (sections d ! k) ! n)\<rparr>) d) =
     Inr (d,
          Some ((if item_done (items (sections d ! k) ! n) then js ''Complete'' else js ''Reopen'')
                @ js '': '' @ item_text (items (sections d ! k) ! n)),
          rt)"
proof -
  let ?it = "items (sections d ! k) ! n"
  let ?d1 = "with_item k n (?it\<lparr>item_done := \<not> item_done ?it\<rparr>) d"
  from find_ref_Some [OF f] have k: "k < length (sections d)" by simp
  from item_property_Item [OF p] have n: "n < length (items (sections d ! k))" .
  have f1: "find_ref (named sf) (sections ?d1) = Some k"
    using f by (rule with_item_find_ref)
  have i1: "items (sections ?d1 ! k) = (items (sections d ! k))[n := ?it\<lparr>item_done := \<not> item_done ?it\<rparr>]"
    using k by (rule with_item_items)
  have p1: "item_property rt (items (sections ?d1 ! k)) index = Inr (Item n)"
    using p by (simp add: i1 item_property_length [of "(items (sections d ! k))[n := ?it\<lparr>item_done := \<not> item_done ?it\<rparr>]" "items (sections d ! k)"])
  have "with_item k n ((items (sections ?d1 ! k) ! n)\<lparr>item_done := \<not> item_done (items (sections ?d1 ! k) ! n)\<rparr>) ?d1 = d"
    using k n by (simp add: i1) (simp add: with_item_def)
  with toggleItem_item [OF f1 p1] show ?thesis using n by (simp add: i1)
qed

lemmas evaluate =
  js_def General_def isLineTerminator_def isWhiteSpace_def isTrimmable_def trim_def
  parse_content_def parse_line_def items_push_def
  serializeTodoMd_def serialize_section_def serialize_item_def
  parseTodoMd_def pullLatest_def saveTodoMd_def commitAndPush_def shell_inert_def
  handler_def index_handler_def offline_def Let_def
  property_key_def get_property_def join_strings_def named_def decimal.simps

lemmas evaluate_runtime = node_runtime_def inherited_names_def

section \<open>The claims\<close>

subsection \<open>C1: round trip\<close>

text \<open>
  C1, as the specification states it, for a document whose names and texts have no line
  feed and are not shaped like a header or a checklist line: parsing the serialized
  document gives the document back. The parser trims what it reads, so the document with
  the section Work and the finished item \<^verbatim>\<open>"ship "\<close>, which ends with a space, comes
  back with the item \<^verbatim>\<open>"ship"\<close>.
\<close>

theorem roundtrip_trailing_space_counterexample:
  "0x0A \<notin> set (js ''Work'') \<and> match_section (js ''Work'') = None \<and>
   match_item (js ''Work'') = None \<and>
   0x0A \<notin> set (js ''ship '') \<and> match_section (js ''ship '') = None \<and>
   match_item (js ''ship '') = None \<and>
   parse_content (serializeTodoMd \<lparr>sections = [\<lparr>name = js ''Work'',
       items = [\<lparr>item_done = True, item_text = js ''ship ''\<rparr>]\<rparr>]\<rparr>)
     = Inr \<lparr>sections = [\<lparr>name = js ''Work'',
       items = [\<lparr>item_done = True, item_text = js ''ship''\<rparr>]\<rparr>]\<rparr> \<and>
   parse_content (serializeTodoMd \<lparr>sections = [\<lparr>name = js ''Work'',
       items = [\<lparr>item_done = True, item_text = js ''ship ''\<rparr>]\<rparr>]\<rparr>)
     \<noteq> Inr \<lparr>sections = [\<lparr>name = js ''Work'',
       items = [\<lparr>item_done = True, item_text = js ''ship ''\<rparr>]\<rparr>]\<rparr>"
  by (simp add: evaluate)

text \<open>
  The other ways a round trip loses content: a name with a carriage return does not
  match the header pattern, an item with the empty text does not match the checklist
  pattern, and the document without sections comes back with the default section.
\<close>

lemma roundtrip_loses_section_with_carriage_return:
  "0x0A \<notin> set [0x41, 0x0D, 0x42 :: jschar] \<and>
   parse_content (serializeTodoMd \<lparr>sections = [\<lparr>name = [0x41, 0x0D, 0x42], items = []\<rparr>]\<rparr>)
     = Inr \<lparr>sections = [General]\<rparr>"
  by (simp add: evaluate)

lemma roundtrip_loses_item_with_empty_text:
  "parse_content (serializeTodoMd \<lparr>sections = [\<lparr>name = js ''Work'',
       items = [\<lparr>item_done = False, item_text = []\<rparr>]\<rparr>]\<rparr>)
     = Inr \<lparr>sections = [\<lparr>name = js ''Work'', items = []\<rparr>]\<rparr>"
  by (simp add: evaluate)

lemma roundtrip_of_no_sections:
  "parse_content (serializeTodoMd \<lparr>sections = []\<rparr>) = Inr \<lparr>sections = [General]\<rparr>"
  by (simp add: evaluate)

text \<open>
  C1, amended: for every document with at least one section, whose section names and
  item texts are not empty, contain no line terminator (line feed, carriage return,
  U+2028, U+2029) and neither begin nor end with white space, parsing the serialized
  document gives exactly the document; so does \<open>parseTodoMd\<close> when TODO.md holds the
  serialized document after the pull.
\<close>

theorem roundtrip_plain_document:
  assumes "plain_document d"
  shows "parse_content (serializeTodoMd d) = Inr d \<and>
    (todo_file (pullLatest w) = Some (serializeTodoMd d) \<longrightarrow> fst (parseTodoMd w) = Inr d)"
  using assms by (simp add: parse_serialize_plain parseTodoMd_def Let_def)

theorem roundtrip_plain_document_witness:
  "plain_document \<lparr>sections = [\<lparr>name = js ''Work'',
       items = [\<lparr>item_done = True, item_text = js ''ship it''\<rparr>]\<rparr>, General]\<rparr> \<and>
   parse_content (serializeTodoMd \<lparr>sections = [\<lparr>name = js ''Work'',
       items = [\<lparr>item_done = True, item_text = js ''ship it''\<rparr>]\<rparr>, General]\<rparr>)
     = Inr \<lparr>sections = [\<lparr>name = js ''Work'',
       items = [\<lparr>item_done = True, item_text = js ''ship it''\<rparr>]\<rparr>, General]\<rparr> \<and>
   todo_file (pullLatest (offline (Some (serializeTodoMd \<lparr>sections = [\<lparr>name = js ''Work'',
       items = [\<lparr>item_done = True, item_text = js ''ship it''\<rparr>]\<rparr>, General]\<rparr>))))
     = Some (serializeTodoMd \<lparr>sections = [\<lparr>name = js ''Work'',
       items = [\<lparr>item_done = True, item_text = js ''ship it''\<rparr>]\<rparr>, General]\<rparr>) \<and>
   fst (parseTodoMd (offline (Some (serializeTodoMd \<lparr>sections = [\<lparr>name = js ''Work'',
       items = [\<lparr>item_done = True, item_text = js ''ship it''\<rparr>]\<rparr>, General]\<rparr>))))
     = Inr \<lparr>sections = [\<lparr>name = js ''Work'',
       items = [\<lparr>item_done = True, item_text = js ''ship it''\<rparr>]\<rparr>, General]\<rparr>"
proof -
  let ?d = "\<lparr>sections = [\<lparr>name = js ''Work'',
       items = [\<lparr>item_done = True, item_text = js ''ship it''\<rparr>]\<rparr>, General]\<rparr>"
  let ?w = "(offline (Some (serializeTodoMd ?d)))"
  have p: "plain_document ?d"
    by (simp add: plain_document_def plain_section_def plain_def trimmed_def js_def
        General_def isTrimmable_def isWhiteSpace_def isLineTerminator_def)
  have f: "todo_file (pullLatest ?w) = Some (serializeTodoMd ?d)"
    by (simp add: pullLatest_def offline_def)
  from p f roundtrip_plain_document [OF p, of ?w] show ?thesis by blast
qed

subsection \<open>C2: addresses that reach nothing\<close>

text \<open>
  C2, as the specification states it, has a publish attempted when the address reaches
  nothing. With no TODO.md and an unreachable remote the parsed document is the default
  one; \<^verbatim>\<open>POST /api/todos\<close> for the section Work, which does not exist, answers with
  that document, and neither writes the file nor calls \<open>commitAndPush\<close>.
\<close>

theorem addItem_unknown_section_counterexample:
  "find_ref (named (Some (JString (js ''Work'')))) [General] = None \<and>
   post_api_todos (Some (JString (js ''Work''))) (js ''ship'') (offline None)
     = (Inr \<lparr>sections = [General]\<rparr>, (offline None)\<lparr>trace := [PullLatest]\<rparr>) \<and>
   publish_attempts (snd (post_api_todos (Some (JString (js ''Work''))) (js ''ship'')
       (offline None))) = []"
  by (simp add: post_api_todos_def addItem_def publish_attempts_def evaluate)

text \<open>
  An index that is no position of an item can still be the key of a property of the
  item list, and then the guards of the three handlers let it pass. With the key
  \<^verbatim>\<open>length\<close> and the section Work that has the items ship and rest,
  \<^verbatim>\<open>DELETE /api/todos\<close> removes the item at position 0 and saves; with the section
  that has no item it throws; and \<^verbatim>\<open>PUT /api/todos/toggle\<close> leaves the document as
  it is, writes the file and calls \<open>commitAndPush\<close> with the message
  \<^verbatim>\<open>Reopen: undefined\<close>. The amended claim below says nothing of such an index.
\<close>

lemma delete_with_key_length_removes_first_item:
  "item_property node_runtime [\<lparr>item_done = False, item_text = js ''ship''\<rparr>,
       \<lparr>item_done = False, item_text = js ''rest''\<rparr>] (Some (JString (js ''length''))) = Inr (Num 2) \<and>
   removeItem (Some (JString (js ''Work''))) (Some (JString (js ''length''))) node_runtime
       \<lparr>sections = [\<lparr>name = js ''Work'', items = [\<lparr>item_done = False, item_text = js ''ship''\<rparr>,
          \<lparr>item_done = False, item_text = js ''rest''\<rparr>]\<rparr>]\<rparr>
     = Inr (\<lparr>sections = [\<lparr>name = js ''Work'',
              items = [\<lparr>item_done = False, item_text = js ''rest''\<rparr>]\<rparr>]\<rparr>,
            Some (js ''Remove: ship''), node_runtime) \<and>
   fst (delete_api_todos (Some (JString (js ''Work''))) (Some (JString (js ''length'')))
       (offline (Some (js ''## Work\<newline>- [ ] ship\<newline>- [ ] rest''))))
     = Inr \<lparr>sections = [\<lparr>name = js ''Work'',
              items = [\<lparr>item_done = False, item_text = js ''rest''\<rparr>]\<rparr>]\<rparr>"
  by (simp add: delete_api_todos_def removeItem_def item_property_def evaluate evaluate_runtime)

lemma delete_with_key_length_throws_without_items:
  "delete_api_todos (Some (JString (js ''Work''))) (Some (JString (js ''length'')))
       (offline (Some (js ''## Work'')))
     = (Inl TypeError, (offline (Some (js ''## Work'')))\<lparr>trace := [PullLatest]\<rparr>)"
  by (simp add: delete_api_todos_def removeItem_def evaluate evaluate_runtime)

lemma toggle_with_key_length_saves:
  "fst (put_api_todos_toggle (Some (JString (js ''Work''))) (Some (JString (js ''length'')))
       (offline (Some (js ''## Work\<newline>- [ ] ship''))))
     = Inr \<lparr>sections = [\<lparr>name = js ''Work'',
              items = [\<lparr>item_done = False, item_text = js ''ship''\<rparr>]\<rparr>]\<rparr> \<and>
   trace (snd (put_api_todos_toggle (Some (JString (js ''Work''))) (Some (JString (js ''length'')))
       (offline (Some (js ''## Work\<newline>- [ ] ship'')))))
     = [PullLatest, WriteFile (js ''# Todo List\<newline>\<newline>## Work\<newline>\<newline>- [ ] ship\<newline>''),
        CommitAndPush (js ''Reopen: undefined'')]"
  by (simp add: put_api_todos_toggle_def toggleItem_def evaluate evaluate_runtime)

text \<open>
  C2, amended: when the section field equals the name of no section (all four
  operations), or the key of the index names no property of the item list of the first
  section of that name (toggle, edit, remove), the answer is the parsed document,
  unchanged, and the world is the one the pull of the parser left: the file is not
  written and no publish is attempted. A number that is not a non-negative integer is
  such an index, and so is a non-negative integer that is not below the length of the
  item list (no inherited property has a numeral for its name).
\<close>

theorem addressing_noop:
  assumes "fst (parseTodoMd w) = Inr d"
  shows "(find_ref (named section_field) (sections d) = None \<longrightarrow>
           post_api_todos section_field tx w = (Inr d, pullLatest w) \<and>
           no_such_item section_field index (runtime w) d) \<and>
    (no_such_item section_field index (runtime w) d \<longrightarrow>
           put_api_todos_toggle section_field index w = (Inr d, pullLatest w) \<and>
           put_api_todos_edit section_field index tx w = (Inr d, pullLatest w) \<and>
           delete_api_todos section_field index w = (Inr d, pullLatest w)) \<and>
    (find_ref (named section_field) (sections d) = Some k \<and>
     (x = OtherNumber \<or>
      x = Index n \<and> length (items (sections d ! k)) \<le> n \<and> \<not> inherited (runtime w) (decimal n)) \<longrightarrow>
           no_such_item section_field (Some (JNumber x)) (runtime w) d) \<and>
    file_writes (pullLatest w) = file_writes w \<and>
    publish_attempts (pullLatest w) = publish_attempts w"
proof (intro conjI impI)
  have p: "parseTodoMd w = (Inr d, pullLatest w)"
    using assms by (rule parseTodoMd_pair)
  show "post_api_todos section_field tx w = (Inr d, pullLatest w)"
    if "find_ref (named section_field) (sections d) = None"
    using that handler_unchanged [OF assms, of "addItem section_field tx"]
    by (simp add: post_api_todos_def addItem_noop p)
  show "no_such_item section_field index (runtime w) d"
    if "find_ref (named section_field) (sections d) = None"
    using that by (simp add: no_such_item_def)
  assume n: "no_such_item section_field index (runtime w) d"
  show "put_api_todos_toggle section_field index w = (Inr d, pullLatest w)"
    unfolding put_api_todos_toggle_def
    using assms toggleItem_noop [OF n] by (rule index_handler_unchanged)
  show "put_api_todos_edit section_field index tx w = (Inr d, pullLatest w)"
    unfolding put_api_todos_edit_def
    using assms editItem_noop [OF n] by (rule index_handler_unchanged)
  show "delete_api_todos section_field index w = (Inr d, pullLatest w)"
    unfolding delete_api_todos_def
    using assms removeItem_noop [OF n] by (rule index_handler_unchanged)
next
  assume "find_ref (named section_field) (sections d) = Some k \<and>
     (x = OtherNumber \<or>
      x = Index n \<and> length (items (sections d ! k)) \<le> n \<and> \<not> inherited (runtime w) (decimal n))"
  then show "no_such_item section_field (Some (JNumber x)) (runtime w) d"
    by (auto simp: no_such_item_def item_property_number)
next
  show "file_writes (pullLatest w) = file_writes w"
    by (simp add: file_writes_def trace_pullLatest)
  show "publish_attempts (pullLatest w) = publish_attempts w"
    by (simp add: publish_attempts_def trace_pullLatest)
qed

theorem addressing_noop_witness:
  "fst (parseTodoMd (offline (Some (js ''## Work\<newline>- [ ] ship''))))
     = Inr \<lparr>sections = [\<lparr>name = js ''Work'',
         items = [\<lparr>item_done = False, item_text = js ''ship''\<rparr>]\<rparr>]\<rparr> \<and>
   find_ref (named (Some (JString (js ''Home'')))) [\<lparr>name = js ''Work'',
         items = [\<lparr>item_done = False, item_text = js ''ship''\<rparr>]\<rparr>] = None \<and>
   find_ref (named (Some (JString (js ''Work'')))) [\<lparr>name = js ''Work'',
         items = [\<lparr>item_done = False, item_text = js ''ship''\<rparr>]\<rparr>] = Some 0 \<and>
   length [\<lparr>item_done = False, item_text = js ''ship''\<rparr>] \<le> 1 \<and>
   \<not> inherited (runtime (offline (Some (js ''## Work\<newline>- [ ] ship'')))) (decimal 1) \<and>
   no_such_item (Some (JString (js ''Work''))) (Some (JNumber (Index 1)))
     (runtime (offline (Some (js ''## Work\<newline>- [ ] ship''))))
     \<lparr>sections = [\<lparr>name = js ''Work'',
         items = [\<lparr>item_done = False, item_text = js ''ship''\<rparr>]\<rparr>]\<rparr> \<and>
   post_api_todos (Some (JString (js ''Home''))) (js ''rest'')
       (offline (Some (js ''## Work\<newline>- [ ] ship'')))
     = (Inr \<lparr>sections = [\<lparr>name = js ''Work'',
         items = [\<lparr>item_done = False, item_text = js ''ship''\<rparr>]\<rparr>]\<rparr>,
        (offline (Some (js ''## Work\<newline>- [ ] ship'')))\<lparr>trace := [PullLatest]\<rparr>) \<and>
   put_api_todos_toggle (Some (JString (js ''Work''))) (Some (JNumber (Index 1)))
       (offline (Some (js ''## Work\<newline>- [ ] ship'')))
     = (Inr \<lparr>sections = [\<lparr>name = js ''Work'',
         items = [\<lparr>item_done = False, item_text = js ''ship''\<rparr>]\<rparr>]\<rparr>,
        (offline (Some (js ''## Work\<newline>- [ ] ship'')))\<lparr>trace := [PullLatest]\<rparr>) \<and>
   delete_api_todos (Some (JString (js ''Work''))) (Some (JNumber (Index 1)))
       (offline (Some (js ''## Work\<newline>- [ ] ship'')))
     = (Inr \<lparr>sections = [\<lparr>name = js ''Work'',
         items = [\<lparr>item_done = False, item_text = js ''ship''\<rparr>]\<rparr>]\<rparr>,
        (offline (Some (js ''## Work\<newline>- [ ] ship'')))\<lparr>trace := [PullLatest]\<rparr>)"
proof -
  let ?w = "offline (Some (js ''## Work\<newline>- [ ] ship''))"
  let ?d = "\<lparr>sections = [\<lparr>name = js ''Work'',
         items = [\<lparr>item_done = False, item_text = js ''ship''\<rparr>]\<rparr>]\<rparr>"
  let ?Home = "Some (JString (js ''Home''))"
  let ?Work = "Some (JString (js ''Work''))"
  let ?one = "Some (JNumber (Index 1))"
  have p: "fst (parseTodoMd ?w) = Inr ?d"
    by (simp add: evaluate)
  have f: "find_ref (named ?Home) [\<lparr>name = js ''Work'',
         items = [\<lparr>item_done = False, item_text = js ''ship''\<rparr>]\<rparr>] = None"
    by (simp add: named_def js_def)
  have g: "find_ref (named ?Work) [\<lparr>name = js ''Work'',
         items = [\<lparr>item_done = False, item_text = js ''ship''\<rparr>]\<rparr>] = Some 0"
    by (simp add: named_def)
  have l: "length [\<lparr>item_done = False, item_text = js ''ship''\<rparr>] \<le> 1"
    by simp
  have i: "\<not> inherited (runtime ?w) (decimal 1)"
    by (simp add: offline_def evaluate_runtime decimal.simps js_def)
  have w: "pullLatest ?w = ?w\<lparr>trace := [PullLatest]\<rparr>"
    by (simp add: pullLatest_def offline_def)
  note add = addressing_noop [OF p, where section_field = ?Home and tx = "js ''rest''"]
  note idx = addressing_noop [OF p, where section_field = ?Work and index = ?one
      and k = 0 and x = "Index 1" and n = 1]
  have 1: "post_api_todos ?Home (js ''rest'') ?w = (Inr ?d, ?w\<lparr>trace := [PullLatest]\<rparr>)"
    using add f unfolding w by simp
  have "find_ref (named ?Work) (sections ?d) = Some 0 \<and>
     (Index 1 = OtherNumber \<or>
      Index 1 = Index 1 \<and> length (items (sections ?d ! 0)) \<le> 1 \<and> \<not> inherited (runtime ?w) (decimal 1))"
    using g i by simp
  with idx have 2: "no_such_item ?Work ?one (runtime ?w) ?d"
    by blast
  with idx have 3: "put_api_todos_toggle ?Work ?one ?w = (Inr ?d, ?w\<lparr>trace := [PullLatest]\<rparr>)"
    and 4: "delete_api_todos ?Work ?one ?w = (Inr ?d, ?w\<lparr>trace := [PullLatest]\<rparr>)"
    unfolding w by blast+
  from p f g l i 2 1 3 4 show ?thesis
    by (intro conjI)
qed

subsection \<open>C3: removing sections\<close>



subsection \<open>C4: text without a section header\<close>

text \<open>
  C4: when no line of the text matches the header pattern, the parser returns the one
  section General without items, from the text and from TODO.md alike; and whatever
  lines come before the first header, checklist lines among them, the parser is in the
  same state after them as at the start, so they add no item.
\<close>

theorem no_header_gives_General:
  "(list_all (\<lambda>l. match_section l = None) (split_nl c) \<longrightarrow>
      parse_content c = Inr \<lparr>sections = [\<lparr>name = js ''General'', items = []\<rparr>]\<rparr>) \<and>
   (todo_file (pullLatest w) = Some c \<and> list_all (\<lambda>l. match_section l = None) (split_nl c) \<longrightarrow>
      fst (parseTodoMd w) = Inr \<lparr>sections = [\<lparr>name = js ''General'', items = []\<rparr>]\<rparr>) \<and>
   (list_all (\<lambda>l. match_section l = None) pre \<longrightarrow>
      parse_lines (pre @ rest) ([], None) = parse_lines rest ([], None))"
proof (intro conjI impI)
  show c: "parse_content c = Inr \<lparr>sections = [\<lparr>name = js ''General'', items = []\<rparr>]\<rparr>"
    if "list_all (\<lambda>l. match_section l = None) (split_nl c)"
    using parse_lines_no_header [OF that] by (simp add: parse_content_def General_def)
  show "fst (parseTodoMd w) = Inr \<lparr>sections = [\<lparr>name = js ''General'', items = []\<rparr>]\<rparr>"
    if "todo_file (pullLatest w) = Some c \<and> list_all (\<lambda>l. match_section l = None) (split_nl c)"
    using that c by (simp add: parseTodoMd_def Let_def)
  show "parse_lines (pre @ rest) ([], None) = parse_lines rest ([], None)"
    if "list_all (\<lambda>l. match_section l = None) pre"
    using parse_lines_no_header [OF that] by (simp add: parse_lines_append)
qed

theorem no_header_gives_General_witness:
  "split_nl (js ''# Todo\<newline>- [x] ship\<newline>#Work'') = [js ''# Todo'', js ''- [x] ship'', js ''#Work''] \<and>
   list_all (\<lambda>l. match_section l = None) (split_nl (js ''# Todo\<newline>- [x] ship\<newline>#Work'')) \<and>
   match_item (js ''- [x] ship'') = Some (0x78, js ''ship'') \<and>
   parse_content (js ''# Todo\<newline>- [x] ship\<newline>#Work'')
     = Inr \<lparr>sections = [\<lparr>name = js ''General'', items = []\<rparr>]\<rparr> \<and>
   fst (parseTodoMd (offline (Some (js ''# Todo\<newline>- [x] ship\<newline>#Work''))))
     = Inr \<lparr>sections = [\<lparr>name = js ''General'', items = []\<rparr>]\<rparr> \<and>
   parse_lines ([js ''- [x] ship''] @ [js ''## Work'', js ''- [ ] rest'']) ([], None)
     = parse_lines [js ''## Work'', js ''- [ ] rest''] ([], None)"
proof -
  let ?c = "js ''# Todo\<newline>- [x] ship\<newline>#Work''"
  let ?w = "(offline (Some ?c))"
  have s: "split_nl ?c = [js ''# Todo'', js ''- [x] ship'', js ''#Work'']"
    by (simp add: js_def)
  have h: "list_all (\<lambda>l. match_section l = None) (split_nl ?c)"
    unfolding s by (simp add: js_def)
  have m: "match_item (js ''- [x] ship'') = Some (0x78, js ''ship'')"
    by (simp add: js_def isLineTerminator_def)
  have f: "todo_file (pullLatest ?w) = Some ?c"
    by (simp add: pullLatest_def offline_def)
  have q: "list_all (\<lambda>l. match_section l = None) [js ''- [x] ship'']"
    by (simp add: js_def)
  from no_header_gives_General
    [of ?c ?w "[js ''- [x] ship'']" "[js ''## Work'', js ''- [ ] rest'']"] s h m f q
  show ?thesis by blast
qed

subsection \<open>C5: the parser never throws\<close>

text \<open>
  C5: for every text the parser returns a document and no error, and so does
  \<open>parseTodoMd\<close> in every world; the empty text and the absence of TODO.md give the
  default document with the one section General; a line that matches neither pattern
  leaves the state of the parser as it is.
\<close>

theorem parse_never_throws:
  "(\<exists>d. parse_content c = Inr d) \<and>
   (\<exists>d. fst (parseTodoMd w) = Inr d) \<and>
   parse_content [] = Inr \<lparr>sections = [\<lparr>name = js ''General'', items = []\<rparr>]\<rparr> \<and>
   (todo_file (pullLatest w) = None \<longrightarrow>
      fst (parseTodoMd w) = Inr \<lparr>sections = [\<lparr>name = js ''General'', items = []\<rparr>]\<rparr>) \<and>
   (match_section l = None \<and> match_item l = None \<longrightarrow> parse_line l st = Inr st)"
proof (intro conjI impI)
  show "\<exists>d. parse_content c = Inr d"
    by (rule parse_content_returns)
  show "\<exists>d. fst (parseTodoMd w) = Inr d"
    by (rule parseTodoMd_returns)
  show "parse_content [] = Inr \<lparr>sections = [\<lparr>name = js ''General'', items = []\<rparr>]\<rparr>"
    by (simp add: parse_content_def parse_line_def General_def)
  show "fst (parseTodoMd w) = Inr \<lparr>sections = [\<lparr>name = js ''General'', items = []\<rparr>]\<rparr>"
    if "todo_file (pullLatest w) = None"
    using that by (simp add: parseTodoMd_def Let_def General_def)
  show "parse_line l st = Inr st" if "match_section l = None \<and> match_item l = None"
    using that by (simp add: parse_line_skip)
qed

theorem parse_never_throws_witness:
  "parse_content (js ''- [ ] early\<newline>## \<newline>##  Work \<newline>-[x] no\<newline>- [X] ship'')
     = Inr \<lparr>sections = [\<lparr>name = js ''Work'',
         items = [\<lparr>item_done = True, item_text = js ''ship''\<rparr>]\<rparr>]\<rparr> \<and>
   todo_file (pullLatest ((offline (Some (js ''## Work'')))\<lparr>origin := Tip None\<rparr>)) = None \<and>
   fst (parseTodoMd ((offline (Some (js ''## Work'')))\<lparr>origin := Tip None\<rparr>))
     = Inr \<lparr>sections = [\<lparr>name = js ''General'', items = []\<rparr>]\<rparr> \<and>
   match_section (js ''-[x] no'') = None \<and> match_item (js ''-[x] no'') = None \<and>
   parse_line (js ''-[x] no'') ([\<lparr>name = js ''Work'', items = []\<rparr>], Some 0)
     = Inr ([\<lparr>name = js ''Work'', items = []\<rparr>], Some 0)"
proof -
  let ?c = "js ''- [ ] early\<newline>## \<newline>##  Work \<newline>-[x] no\<newline>- [X] ship''"
  let ?w = "((offline (Some (js ''## Work'')))\<lparr>origin := Tip None\<rparr>)"
  let ?st = "([\<lparr>name = js ''Work'', items = []\<rparr>], Some (0::nat))"
  have c: "parse_content ?c = Inr \<lparr>sections = [\<lparr>name = js ''Work'',
         items = [\<lparr>item_done = True, item_text = js ''ship''\<rparr>]\<rparr>]\<rparr>"
    by (simp add: evaluate)
  have f: "todo_file (pullLatest ?w) = None"
    by (simp add: pullLatest_def offline_def)
  have m: "match_section (js ''-[x] no'') = None \<and> match_item (js ''-[x] no'') = None"
    by (simp add: js_def)
  from parse_never_throws [of ?c ?w "js ''-[x] no''" ?st] c f m
  show ?thesis by blast
qed

subsection \<open>C6: toggling twice\<close>

text \<open>
  C6, as the specification states it, is about every document with a section named
  General whose item at index 0 is the open item buy milk. The parser returns the
  document below from a TODO.md with two headers General: its second section is named
  General and has that item at index 0, but the name resolves to the first section of
  that name, which has no item, so the toggle for General and 0 changes nothing and
  saves nothing.
\<close>

theorem toggle_second_General_counterexample:
  "name (sections \<lparr>sections = [\<lparr>name = js ''General'', items = []\<rparr>,
      \<lparr>name = js ''General'',
       items = [\<lparr>item_done = False, item_text = js ''buy milk''\<rparr>]\<rparr>]\<rparr> ! 1) = js ''General'' \<and>
   items (sections \<lparr>sections = [\<lparr>name = js ''General'', items = []\<rparr>,
      \<lparr>name = js ''General'',
       items = [\<lparr>item_done = False, item_text = js ''buy milk''\<rparr>]\<rparr>]\<rparr> ! 1) ! 0
     = \<lparr>item_done = False, item_text = js ''buy milk''\<rparr> \<and>
   parse_content (js ''## General\<newline>## General\<newline>- [ ] buy milk'')
     = Inr \<lparr>sections = [\<lparr>name = js ''General'', items = []\<rparr>,
        \<lparr>name = js ''General'',
         items = [\<lparr>item_done = False, item_text = js ''buy milk''\<rparr>]\<rparr>]\<rparr> \<and>
   toggleItem (Some (JString (js ''General''))) (Some (JNumber (Index 0))) node_runtime
       \<lparr>sections = [\<lparr>name = js ''General'', items = []\<rparr>,
          \<lparr>name = js ''General'',
           items = [\<lparr>item_done = False, item_text = js ''buy milk''\<rparr>]\<rparr>]\<rparr>
     = Inr (\<lparr>sections = [\<lparr>name = js ''General'', items = []\<rparr>,
          \<lparr>name = js ''General'',
           items = [\<lparr>item_done = False, item_text = js ''buy milk''\<rparr>]\<rparr>]\<rparr>,
        None, node_runtime) \<and>
   put_api_todos_toggle (Some (JString (js ''General''))) (Some (JNumber (Index 0)))
       (offline (Some (js ''## General\<newline>## General\<newline>- [ ] buy milk'')))
     = (Inr \<lparr>sections = [\<lparr>name = js ''General'', items = []\<rparr>,
          \<lparr>name = js ''General'',
           items = [\<lparr>item_done = False, item_text = js ''buy milk''\<rparr>]\<rparr>]\<rparr>,
        (offline (Some (js ''## General\<newline>## General\<newline>- [ ] buy milk'')))
          \<lparr>trace := [PullLatest]\<rparr>)"
  by (simp add: put_api_todos_toggle_def toggleItem_def evaluate evaluate_runtime)

text \<open>
  Two calls of the route do not always give the parsed document back either: a header
  of spaces gives a section with the empty name, which the saved file of the first call
  no longer has, so the second call parses another document, in which the items of that
  section belong to the section before it.
\<close>

lemma toggle_route_twice_merges_unnamed_section:
  "fst (parseTodoMd (offline (Some (js ''## General\<newline>- [ ] buy milk\<newline>##   \<newline>- [ ] ship''))))
     = Inr \<lparr>sections = [\<lparr>name = js ''General'',
          items = [\<lparr>item_done = False, item_text = js ''buy milk''\<rparr>]\<rparr>,
        \<lparr>name = [], items = [\<lparr>item_done = False, item_text = js ''ship''\<rparr>]\<rparr>]\<rparr> \<and>
   fst (put_api_todos_toggle (Some (JString (js ''General''))) (Some (JNumber (Index 0)))
     (snd (put_api_todos_toggle (Some (JString (js ''General''))) (Some (JNumber (Index 0)))
       (offline (Some (js ''## General\<newline>- [ ] buy milk\<newline>##   \<newline>- [ ] ship''))))))
     = Inr \<lparr>sections = [\<lparr>name = js ''General'',
          items = [\<lparr>item_done = False, item_text = js ''buy milk''\<rparr>,
                   \<lparr>item_done = False, item_text = js ''ship''\<rparr>]\<rparr>]\<rparr>"
  by (simp add: put_api_todos_toggle_def toggleItem_def evaluate evaluate_runtime)

text \<open>
  C6, amended: in a document where the first section named General, the one the name
  resolves to, has at index 0 the open item buy milk, the toggle for General and 0 makes
  that item finished, with the same text, and the same toggle on the document it
  returned restores the flag and gives the starting document back. The route answers
  with the toggled document and saves it with the message \<^verbatim>\<open>Complete: buy milk\<close>; a
  second call of the route that parses the document the first one answered with answers
  with the starting document. In general, for every section field that resolves to a
  section and every index whose key is the position of an item of it, the toggle flips
  the flag of that item, and the toggle on the document it returned is the identity on
  the starting document.
\<close>

theorem toggle_twice_identity:
  "(find_ref (named (Some (JString (js ''General'')))) (sections d) = Some k \<and>
    take 1 (items (sections d ! k)) = [\<lparr>item_done = False, item_text = js ''buy milk''\<rparr>] \<longrightarrow>
      toggleItem (Some (JString (js ''General''))) (Some (JNumber (Index 0))) rt d
        = Inr (with_item k 0 \<lparr>item_done = True, item_text = js ''buy milk''\<rparr> d,
               Some (js ''Complete: buy milk''), rt) \<and>
      take 1 (items (sections (with_item k 0 \<lparr>item_done = True, item_text = js ''buy milk''\<rparr> d) ! k))
        = [\<lparr>item_done = True, item_text = js ''buy milk''\<rparr>] \<and>
      toggleItem (Some (JString (js ''General''))) (Some (JNumber (Index 0))) rt
          (with_item k 0 \<lparr>item_done = True, item_text = js ''buy milk''\<rparr> d)
        = Inr (d, Some (js ''Reopen: buy milk''), rt) \<and>
      (fst (parseTodoMd w) = Inr d \<longrightarrow>
         put_api_todos_toggle (Some (JString (js ''General''))) (Some (JNumber (Index 0))) w
           = (Inr (with_item k 0 \<lparr>item_done = True, item_text = js ''buy milk''\<rparr> d),
              saveTodoMd (with_item k 0 \<lparr>item_done = True, item_text = js ''buy milk''\<rparr> d)
                (js ''Complete: buy milk'') (pullLatest w))) \<and>
      (fst (parseTodoMd w') = Inr (with_item k 0 \<lparr>item_done = True, item_text = js ''buy milk''\<rparr> d) \<longrightarrow>
         put_api_todos_toggle (Some (JString (js ''General''))) (Some (JNumber (Index 0))) w'
           = (Inr d, saveTodoMd d (js ''Reopen: buy milk'') (pullLatest w')))) \<and>
   (find_ref (named section_field) (sections d) = Some j \<and>
    item_property rt (items (sections d ! j)) index = Inr (Item n) \<and>
    it = items (sections d ! j) ! n \<longrightarrow>
      toggleItem section_field index rt d
        = Inr (with_item j n (it\<lparr>item_done := \<not> item_done it\<rparr>) d,
               Some ((if item_done it then js ''Reopen'' else js ''Complete'') @ js '': '' @ item_text it),
               rt) \<and>
      toggleItem section_field index rt (with_item j n (it\<lparr>item_done := \<not> item_done it\<rparr>) d)
        = Inr (d,
               Some ((if item_done it then js ''Complete'' else js ''Reopen'') @ js '': '' @ item_text it),
               rt) \<and>
      (fst (parseTodoMd w) = Inr d \<and> runtime w = rt \<longrightarrow>
         fst (put_api_todos_toggle section_field index w)
           = Inr (with_item j n (it\<lparr>item_done := \<not> item_done it\<rparr>) d)) \<and>
      (fst (parseTodoMd w') = Inr (with_item j n (it\<lparr>item_done := \<not> item_done it\<rparr>) d) \<and>
       runtime w' = rt \<longrightarrow>
         fst (put_api_todos_toggle section_field index w') = Inr d))"
proof -
  have general:
    "toggleItem sf ix r d
       = Inr (with_item m p (x\<lparr>item_done := \<not> item_done x\<rparr>) d,
              Some ((if item_done x then js ''Reopen'' else js ''Complete'') @ js '': '' @ item_text x),
              r) \<and>
     toggleItem sf ix r (with_item m p (x\<lparr>item_done := \<not> item_done x\<rparr>) d)
       = Inr (d,
              Some ((if item_done x then js ''Complete'' else js ''Reopen'') @ js '': '' @ item_text x),
              r)"
    if "find_ref (named sf) (sections d) = Some m"
      and "item_property r (items (sections d ! m)) ix = Inr (Item p)"
      and "x = items (sections d ! m) ! p" for sf ix r m p x
    using toggleItem_item [OF that(1,2)] toggleItem_twice [OF that(1,2)] that(3) by simp
  have route:
    "put_api_todos_toggle sf ix v = (Inr e', saveTodoMd e' msg (pullLatest v))"
    if "fst (parseTodoMd v) = Inr e" and "toggleItem sf ix (runtime v) e = Inr (e', Some msg, runtime v)"
    for sf ix v e e' msg
  proof -
    have "(pullLatest v)\<lparr>runtime := runtime v\<rparr> = pullLatest v"
      using runtime_pullLatest [of v] by (metis world.surjective world.update_convs(6))
    with index_handler_saved [of v e "toggleItem sf ix" e' msg "runtime v"] that show ?thesis
      by (simp add: put_api_todos_toggle_def)
  qed
  let ?G = "Some (JString (js ''General''))"
  let ?I = "Some (JNumber (Index 0))"
  let ?a = "\<lparr>item_done = False, item_text = js ''buy milk''\<rparr>"
  let ?b = "\<lparr>item_done = True, item_text = js ''buy milk''\<rparr>"
  have scenario:
    "toggleItem ?G ?I r d = Inr (with_item k 0 ?b d, Some (js ''Complete: buy milk''), r) \<and>
     take 1 (items (sections (with_item k 0 ?b d) ! k)) = [?b] \<and>
     toggleItem ?G ?I r (with_item k 0 ?b d) = Inr (d, Some (js ''Reopen: buy milk''), r)"
    if f: "find_ref (named ?G) (sections d) = Some k"
      and t: "take 1 (items (sections d ! k)) = [?a]" for r
  proof -
    from t obtain rest where xs: "items (sections d ! k) = ?a # rest"
      by (cases "items (sections d ! k)") auto
    then have p: "item_property r (items (sections d ! k)) ?I = Inr (Item 0)"
      by (simp add: item_property_number)
    have x: "?a = items (sections d ! k) ! 0" by (simp add: xs)
    have k: "k < length (sections d)" using find_ref_Some [OF f] by simp
    have "take 1 (items (sections (with_item k 0 ?b d) ! k)) = [?b]"
      using k by (simp add: with_item_items xs)
    with general [OF f p x] show ?thesis by (simp add: js_def)
  qed
  show ?thesis
  proof (intro conjI impI)
    assume h: "find_ref (named ?G) (sections d) = Some k \<and> take 1 (items (sections d ! k)) = [?a]"
    then have f: "find_ref (named ?G) (sections d) = Some k"
      and t: "take 1 (items (sections d ! k)) = [?a]" by simp_all
    show "toggleItem ?G ?I rt d = Inr (with_item k 0 ?b d, Some (js ''Complete: buy milk''), rt)"
      and "take 1 (items (sections (with_item k 0 ?b d) ! k)) = [?b]"
      and "toggleItem ?G ?I rt (with_item k 0 ?b d) = Inr (d, Some (js ''Reopen: buy milk''), rt)"
      using scenario [OF f t, of rt] by simp_all
    show "put_api_todos_toggle ?G ?I w
           = (Inr (with_item k 0 ?b d),
              saveTodoMd (with_item k 0 ?b d) (js ''Complete: buy milk'') (pullLatest w))"
      if "fst (parseTodoMd w) = Inr d"
      using route [OF that, of ?G ?I] scenario [OF f t, of "runtime w"] by simp
    show "put_api_todos_toggle ?G ?I w'
           = (Inr d, saveTodoMd d (js ''Reopen: buy milk'') (pullLatest w'))"
      if "fst (parseTodoMd w') = Inr (with_item k 0 ?b d)"
      using route [OF that, of ?G ?I] scenario [OF f t, of "runtime w'"] by simp
  next
    assume h: "find_ref (named section_field) (sections d) = Some j \<and>
      item_property rt (items (sections d ! j)) index = Inr (Item n) \<and>
      it = items (sections d ! j) ! n"
    then have g: "toggleItem section_field index rt d
        = Inr (with_item j n (it\<lparr>item_done := \<not> item_done it\<rparr>) d,
               Some ((if item_done it then js ''Reopen'' else js ''Complete'') @ js '': '' @ item_text it),
               rt) \<and>
      toggleItem section_field index rt (with_item j n (it\<lparr>item_done := \<not> item_done it\<rparr>) d)
        = Inr (d,
               Some ((if item_done it then js ''Complete'' else js ''Reopen'') @ js '': '' @ item_text it),
               rt)"
      using general [of section_field j rt index n it] by blast
    from g show "toggleItem section_field index rt d
        = Inr (with_item j n (it\<lparr>item_done := \<not> item_done it\<rparr>) d,
               Some ((if item_done it then js ''Reopen'' else js ''Complete'') @ js '': '' @ item_text it),
               rt)" by simp
    from g show "toggleItem section_field index rt (with_item j n (it\<lparr>item_done := \<not> item_done it\<rparr>) d)
        = Inr (d,
               Some ((if item_done it then js ''Complete'' else js ''Reopen'') @ js '': '' @ item_text it),
               rt)" by simp
    show "fst (put_api_todos_toggle section_field index w)
           = Inr (with_item j n (it\<lparr>item_done := \<not> item_done it\<rparr>) d)"
      if "fst (parseTodoMd w) = Inr d \<and> runtime w = rt"
      using that g route [of w d section_field index] by auto
    show "fst (put_api_todos_toggle section_field index w') = Inr d"
      if "fst (parseTodoMd w') = Inr (with_item j n (it\<lparr>item_done := \<not> item_done it\<rparr>) d) \<and>
       runtime w' = rt"
      using that g route [of w' _ section_field index] by auto
  qed
qed

theorem toggle_twice_identity_witness:
  "fst (parseTodoMd (offline (Some (js ''## Work\<newline>## General\<newline>- [ ] buy milk\<newline>- [x] ship''))))
     = Inr \<lparr>sections = [\<lparr>name = js ''Work'', items = []\<rparr>,
        \<lparr>name = js ''General'', items = [\<lparr>item_done = False, item_text = js ''buy milk''\<rparr>,
           \<lparr>item_done = True, item_text = js ''ship''\<rparr>]\<rparr>]\<rparr> \<and>
   find_ref (named (Some (JString (js ''General''))))
     (sections \<lparr>sections = [\<lparr>name = js ''Work'', items = []\<rparr>,
        \<lparr>name = js ''General'', items = [\<lparr>item_done = False, item_text = js ''buy milk''\<rparr>,
           \<lparr>item_done = True, item_text = js ''ship''\<rparr>]\<rparr>]\<rparr>) = Some 1 \<and>
   toggleItem (Some (JString (js ''General''))) (Some (JNumber (Index 0))) node_runtime
     \<lparr>sections = [\<lparr>name = js ''Work'', items = []\<rparr>,
        \<lparr>name = js ''General'', items = [\<lparr>item_done = False, item_text = js ''buy milk''\<rparr>,
           \<lparr>item_done = True, item_text = js ''ship''\<rparr>]\<rparr>]\<rparr>
     = Inr (\<lparr>sections = [\<lparr>name = js ''Work'', items = []\<rparr>,
        \<lparr>name = js ''General'', items = [\<lparr>item_done = True, item_text = js ''buy milk''\<rparr>,
           \<lparr>item_done = True, item_text = js ''ship''\<rparr>]\<rparr>]\<rparr>,
        Some (js ''Complete: buy milk''), node_runtime) \<and>
   toggleItem (Some (JString (js ''General''))) (Some (JNumber (Index 0))) node_runtime
     \<lparr>sections = [\<lparr>name = js ''Work'', items = []\<rparr>,
        \<lparr>name = js ''General'', items = [\<lparr>item_done = True, item_text = js ''buy milk''\<rparr>,
           \<lparr>item_done = True, item_text = js ''ship''\<rparr>]\<rparr>]\<rparr>
     = Inr (\<lparr>sections = [\<lparr>name = js ''Work'', items = []\<rparr>,
        \<lparr>name = js ''General'', items = [\<lparr>item_done = False, item_text = js ''buy milk''\<rparr>,
           \<lparr>item_done = True, item_text = js ''ship''\<rparr>]\<rparr>]\<rparr>,
        Some (js ''Reopen: buy milk''), node_runtime) \<and>
   fst (put_api_todos_toggle (Some (JString (js ''General''))) (Some (JNumber (Index 0)))
     (offline (Some (js ''## Work\<newline>## General\<newline>- [ ] buy milk\<newline>- [x] ship''))))
     = Inr \<lparr>sections = [\<lparr>name = js ''Work'', items = []\<rparr>,
        \<lparr>name = js ''General'', items = [\<lparr>item_done = True, item_text = js ''buy milk''\<rparr>,
           \<lparr>item_done = True, item_text = js ''ship''\<rparr>]\<rparr>]\<rparr> \<and>
   fst (put_api_todos_toggle (Some (JString (js ''General''))) (Some (JNumber (Index 0)))
     (snd (put_api_todos_toggle (Some (JString (js ''General''))) (Some (JNumber (Index 0)))
       (offline (Some (js ''## Work\<newline>## General\<newline>- [ ] buy milk\<newline>- [x] ship''))))))
     = Inr \<lparr>sections = [\<lparr>name = js ''Work'', items = []\<rparr>,
        \<lparr>name = js ''General'', items = [\<lparr>item_done = False, item_text = js ''buy milk''\<rparr>,
           \<lparr>item_done = True, item_text = js ''ship''\<rparr>]\<rparr>]\<rparr> \<and>
   item_property node_runtime [\<lparr>item_done = False, item_text = js ''buy milk''\<rparr>,
       \<lparr>item_done = True, item_text = js ''ship''\<rparr>] (Some (JString (js ''1''))) = Inr (Item 1) \<and>
   toggleItem (Some (JString (js ''General''))) (Some (JString (js ''1''))) node_runtime
     \<lparr>sections = [\<lparr>name = js ''Work'', items = []\<rparr>,
        \<lparr>name = js ''General'', items = [\<lparr>item_done = False, item_text = js ''buy milk''\<rparr>,
           \<lparr>item_done = True, item_text = js ''ship''\<rparr>]\<rparr>]\<rparr>
     = Inr (\<lparr>sections = [\<lparr>name = js ''Work'', items = []\<rparr>,
        \<lparr>name = js ''General'', items = [\<lparr>item_done = False, item_text = js ''buy milk''\<rparr>,
           \<lparr>item_done = False, item_text = js ''ship''\<rparr>]\<rparr>]\<rparr>,
        Some (js ''Reopen: ship''), node_runtime)"
proof -
  let ?G = "Some (JString (js ''General''))"
  let ?I = "Some (JNumber (Index 0))"
  let ?w = "offline (Some (js ''## Work\<newline>## General\<newline>- [ ] buy milk\<newline>- [x] ship''))"
  let ?d = "\<lparr>sections = [\<lparr>name = js ''Work'', items = []\<rparr>,
        \<lparr>name = js ''General'', items = [\<lparr>item_done = False, item_text = js ''buy milk''\<rparr>,
           \<lparr>item_done = True, item_text = js ''ship''\<rparr>]\<rparr>]\<rparr>"
  let ?d1 = "\<lparr>sections = [\<lparr>name = js ''Work'', items = []\<rparr>,
        \<lparr>name = js ''General'', items = [\<lparr>item_done = True, item_text = js ''buy milk''\<rparr>,
           \<lparr>item_done = True, item_text = js ''ship''\<rparr>]\<rparr>]\<rparr>"
  let ?w1 = "saveTodoMd ?d1 (js ''Complete: buy milk'') (pullLatest ?w)"
  have p: "fst (parseTodoMd ?w) = Inr ?d"
    by (simp add: evaluate)
  have f: "find_ref (named ?G) (sections ?d) = Some 1"
    by (simp add: named_def js_def)
  have t: "take 1 (items (sections ?d ! 1)) = [\<lparr>item_done = False, item_text = js ''buy milk''\<rparr>]"
    by simp
  have e: "with_item 1 0 \<lparr>item_done = True, item_text = js ''buy milk''\<rparr> ?d = ?d1"
    by (simp add: with_item_def)
  have p1: "fst (parseTodoMd ?w1) = Inr ?d1"
    by (simp add: evaluate)
  have i: "item_property node_runtime (items (sections ?d ! 1)) (Some (JString (js ''1''))) = Inr (Item 1)"
    by (simp add: item_property_def evaluate)
  have x: "\<lparr>item_done = True, item_text = js ''ship''\<rparr> = items (sections ?d ! 1) ! 1"
    by simp
  note inst = toggle_twice_identity [where d = ?d and k = 1 and rt = node_runtime and w = ?w
      and w' = ?w1 and section_field = ?G and j = 1 and index = "Some (JString (js ''1''))"
      and n = 1 and it = "\<lparr>item_done = True, item_text = js ''ship''\<rparr>", unfolded e]
  have 1: "toggleItem ?G ?I node_runtime ?d = Inr (?d1, Some (js ''Complete: buy milk''), node_runtime)"
    and 2: "toggleItem ?G ?I node_runtime ?d1 = Inr (?d, Some (js ''Reopen: buy milk''), node_runtime)"
    and 3: "put_api_todos_toggle ?G ?I ?w = (Inr ?d1, ?w1)"
    and 4: "put_api_todos_toggle ?G ?I ?w1
              = (Inr ?d, saveTodoMd ?d (js ''Reopen: buy milk'') (pullLatest ?w1))"
    using inst f t p p1 by blast+
  have 5: "toggleItem ?G (Some (JString (js ''1''))) node_runtime ?d
     = Inr (with_item 1 1 \<lparr>item_done = False, item_text = js ''ship''\<rparr> ?d,
            Some (js ''Reopen: ship''), node_runtime)"
    using inst f i x by (simp add: js_def)
  show ?thesis
    using p f 1 2 i 5 by (simp add: 3 4 with_item_def)
qed

subsection \<open>C7: adding a section\<close>

text \<open>
  C7, as the specification states it, has \<open>addSection\<close> append the section whenever no
  section has the name. The default document has no section with the empty name, and
  \<open>addSection\<close> with the empty name leaves it as it is, without a commit message.
\<close>

theorem addSection_empty_name_counterexample:
  "\<not> list_ex (\<lambda>s. name s = []) (sections \<lparr>sections = [General]\<rparr>) \<and>
   addSection (Some []) \<lparr>sections = [General]\<rparr> = (\<lparr>sections = [General]\<rparr>, None) \<and>
   sections (fst (addSection (Some []) \<lparr>sections = [General]\<rparr>))
     \<noteq> sections \<lparr>sections = [General]\<rparr> @ [\<lparr>name = [], items = []\<rparr>]"
  by (simp add: addSection_def General_def js_def)

text \<open>
  C7, amended: when a section with the name of the argument exists, \<open>addSection\<close> leaves
  the document unchanged, and \<^verbatim>\<open>POST /api/sections\<close> answers with the parsed document
  and does nothing more than the pull; otherwise, when the name is not empty, it appends
  the section with that name and no items at the end of the section list.
\<close>

theorem addSection_duplicate_or_append:
  "(list_ex (\<lambda>s. name s = n) (sections d) \<longrightarrow> addSection (Some n) d = (d, None)) \<and>
   (list_ex (\<lambda>s. name s = n) (sections d) \<and> fst (parseTodoMd w) = Inr d \<longrightarrow>
      post_api_sections (Some n) w = (Inr d, pullLatest w)) \<and>
   (\<not> list_ex (\<lambda>s. name s = n) (sections d) \<and> n \<noteq> [] \<longrightarrow>
      sections (fst (addSection (Some n) d)) = sections d @ [\<lparr>name = n, items = []\<rparr>])"
proof (intro conjI impI)
  show 1: "addSection (Some n) d = (d, None)" if "list_ex (\<lambda>s. name s = n) (sections d)"
    using that by (simp add: addSection_existing find_ref_None)
  show "post_api_sections (Some n) w = (Inr d, pullLatest w)"
    if h: "list_ex (\<lambda>s. name s = n) (sections d) \<and> fst (parseTodoMd w) = Inr d"
  proof -
    have "parseTodoMd w = (Inr d, pullLatest w)"
      using h parseTodoMd_world [of w] by (cases "parseTodoMd w") simp
    then show ?thesis
      using h handler_unchanged [of w d "addSection (Some n)"] 1
      by (simp add: post_api_sections_def)
  qed
  show "sections (fst (addSection (Some n) d)) = sections d @ [\<lparr>name = n, items = []\<rparr>]"
    if "\<not> list_ex (\<lambda>s. name s = n) (sections d) \<and> n \<noteq> []"
    using that by (simp add: addSection_new find_ref_None)
qed

theorem addSection_duplicate_or_append_witness:
  "list_ex (\<lambda>s. name s = js ''General'') (sections \<lparr>sections = [General]\<rparr>) \<and>
   fst (parseTodoMd (offline (None)))
     = Inr \<lparr>sections = [General]\<rparr> \<and>
   addSection (Some (js ''General'')) \<lparr>sections = [General]\<rparr> = (\<lparr>sections = [General]\<rparr>, None) \<and>
   post_api_sections (Some (js ''General'')) (offline (None))
     = (Inr \<lparr>sections = [General]\<rparr>,
        ((offline (None))\<lparr>trace := [PullLatest]\<rparr>)) \<and>
   \<not> list_ex (\<lambda>s. name s = js ''Work'') (sections \<lparr>sections = [General]\<rparr>) \<and> js ''Work'' \<noteq> [] \<and>
   sections (fst (addSection (Some (js ''Work'')) \<lparr>sections = [General]\<rparr>))
     = [General, \<lparr>name = js ''Work'', items = []\<rparr>]"
proof -
  let ?d = "\<lparr>sections = [General]\<rparr>"
  let ?w = "(offline (None))"
  have e: "list_ex (\<lambda>s. name s = js ''General'') (sections ?d)"
    by (simp add: General_def)
  have p: "fst (parseTodoMd ?w) = Inr ?d"
    by (simp add: parseTodoMd_def pullLatest_def offline_def)
  have w: "pullLatest ?w = ((offline (None))\<lparr>trace := [PullLatest]\<rparr>)"
    by (simp add: pullLatest_def offline_def)
  have n: "\<not> list_ex (\<lambda>s. name s = js ''Work'') (sections ?d) \<and> js ''Work'' \<noteq> []"
    by (simp add: General_def js_def)
  from addSection_duplicate_or_append [of "js ''General''" ?d ?w]
    addSection_duplicate_or_append [of "js ''Work''" ?d ?w] e p w n
  show ?thesis by simp
qed

subsection \<open>C8: the serialized text of a scenario\<close>

text \<open>
  C8: serializing the document with the one section Work, which has the one finished
  item ship, gives the title line, an empty line, the header of the section, an empty
  line and the line of the item.
\<close>

theorem serialize_work_ship:
  "serializeTodoMd \<lparr>sections = [\<lparr>name = js ''Work'',
       items = [\<lparr>item_done = True, item_text = js ''ship''\<rparr>]\<rparr>]\<rparr>
   = js ''# Todo List\<newline>\<newline>## Work\<newline>\<newline>- [x] ship\<newline>''"
  by (simp add: serializeTodoMd_def serialize_section_def serialize_item_def js_def)

subsection \<open>C9: what the parser returns is trimmed\<close>

text \<open>
  C9: for every text, and for every world, the parser returns a document in which no
  section name and no item text begins or ends with white space or a line terminator.
\<close>

theorem parse_normalized:
  "(\<exists>d. parse_content c = Inr d \<and>
        list_all (\<lambda>s. trimmed (name s) \<and> list_all (\<lambda>i. trimmed (item_text i)) (items s))
          (sections d)) \<and>
   (\<exists>d. fst (parseTodoMd w) = Inr d \<and>
        list_all (\<lambda>s. trimmed (name s) \<and> list_all (\<lambda>i. trimmed (item_text i)) (items s))
          (sections d))"
proof -
  have n: "(\<lambda>s. trimmed (name s) \<and> list_all (\<lambda>i. trimmed (item_text i)) (items s)) = normalized"
    by (simp add: normalized_def fun_eq_iff)
  have 1: "\<exists>d. parse_content c' = Inr d \<and> list_all normalized (sections d)" for c'
    using parse_content_returns [of c'] parse_content_normalized [of c'] by blast
  have 2: "\<exists>d. fst (parseTodoMd w) = Inr d \<and> list_all normalized (sections d)"
  proof (cases "todo_file (pullLatest w)")
    case None
    then show ?thesis by (simp add: parseTodoMd_def Let_def normalized_General)
  next
    case (Some c')
    then show ?thesis using 1 [of c'] by (simp add: parseTodoMd_def Let_def)
  qed
  from 1 [of c] 2 show ?thesis unfolding n by blast
qed

theorem parse_normalized_witness:
  "parse_content (js ''##   Work  \<newline>- [ ]   ship it   '')
     = Inr \<lparr>sections = [\<lparr>name = js ''Work'',
         items = [\<lparr>item_done = False, item_text = js ''ship it''\<rparr>]\<rparr>]\<rparr> \<and>
   trimmed (js ''Work'') \<and> trimmed (js ''ship it'') \<and> \<not> trimmed (js ''  ship it   '') \<and>
   (\<exists>d. parse_content (js ''##   Work  \<newline>- [ ]   ship it   '') = Inr d \<and>
        list_all (\<lambda>s. trimmed (name s) \<and> list_all (\<lambda>i. trimmed (item_text i)) (items s))
          (sections d))"
proof -
  have "parse_content (js ''##   Work  \<newline>- [ ]   ship it   '')
     = Inr \<lparr>sections = [\<lparr>name = js ''Work'',
         items = [\<lparr>item_done = False, item_text = js ''ship it''\<rparr>]\<rparr>]\<rparr>"
    by (simp add: evaluate)
  moreover have "trimmed (js ''Work'') \<and> trimmed (js ''ship it'') \<and> \<not> trimmed (js ''  ship it   '')"
    by (simp add: trimmed_def js_def isTrimmable_def isWhiteSpace_def isLineTerminator_def)
  ultimately show ?thesis
    using parse_normalized [of "js ''##   Work  \<newline>- [ ]   ship it   ''"] by blast
qed

subsection \<open>C10: adding a section without a name\<close>

text \<open>
  C10: \<^verbatim>\<open>POST /api/sections\<close> with an absent or an empty name answers with the parsed
  document, unchanged, and leaves the world that the pull of the parser left: TODO.md is
  not written and \<open>commitAndPush\<close> is not called.
\<close>

theorem addSection_empty_noop:
  assumes "nm = None \<or> nm = Some []"
  shows "addSection nm d = (d, None) \<and>
    post_api_sections nm w = parseTodoMd w \<and>
    snd (post_api_sections nm w) = pullLatest w \<and>
    trace (snd (post_api_sections nm w)) = trace w @ [PullLatest] \<and>
    file_writes (snd (post_api_sections nm w)) = file_writes w \<and>
    publish_attempts (snd (post_api_sections nm w)) = publish_attempts w"
proof -
  obtain d' where p: "fst (parseTodoMd w) = Inr d'"
    using parseTodoMd_returns by blast
  have "addSection nm d' = (d', None)"
    using assms by (rule addSection_falsy)
  with p have h: "post_api_sections nm w = parseTodoMd w"
    unfolding post_api_sections_def by (rule handler_unchanged)
  have "addSection nm d = (d, None)"
    using assms by (rule addSection_falsy)
  then show ?thesis
    by (simp add: h parseTodoMd_world trace_pullLatest file_writes_def publish_attempts_def)
qed

theorem addSection_empty_noop_witness:
  "(Some [] = None \<or> Some [] = Some ([] :: jsstr)) \<and>
   post_api_sections (Some [])
       (offline (Some (js ''## Work'')))
     = (Inr \<lparr>sections = [\<lparr>name = js ''Work'', items = []\<rparr>]\<rparr>,
        ((offline (Some (js ''## Work'')))\<lparr>trace := [PullLatest]\<rparr>)) \<and>
   post_api_sections None
       (offline (Some (js ''## Work'')))
     = (Inr \<lparr>sections = [\<lparr>name = js ''Work'', items = []\<rparr>]\<rparr>,
        ((offline (Some (js ''## Work'')))\<lparr>trace := [PullLatest]\<rparr>)) \<and>
   file_writes (snd (post_api_sections (Some [])
       (offline (Some (js ''## Work''))))) = [] \<and>
   publish_attempts (snd (post_api_sections (Some [])
       (offline (Some (js ''## Work''))))) = []"
proof -
  let ?w = "(offline (Some (js ''## Work'')))"
  have h: "Some [] = None \<or> Some [] = Some ([] :: jsstr)"
    by simp
  have p: "parseTodoMd ?w = (Inr \<lparr>sections = [\<lparr>name = js ''Work'', items = []\<rparr>]\<rparr>,
        ((offline (Some (js ''## Work'')))\<lparr>trace := [PullLatest]\<rparr>))"
    by (simp add: evaluate)
  have e: "file_writes ?w = [] \<and> publish_attempts ?w = []"
    by (simp add: file_writes_def publish_attempts_def offline_def)
  have n: "None = None \<or> None = Some ([] :: jsstr)"
    by simp
  have 1: "post_api_sections (Some []) ?w = parseTodoMd ?w"
    and 2: "file_writes (snd (post_api_sections (Some []) ?w)) = file_writes ?w"
    and 3: "publish_attempts (snd (post_api_sections (Some []) ?w)) = publish_attempts ?w"
    using addSection_empty_noop [OF h, of "\<lparr>sections = []\<rparr>" ?w] by blast+
  have 4: "post_api_sections None ?w = parseTodoMd ?w"
    using addSection_empty_noop [OF n, of "\<lparr>sections = []\<rparr>" ?w] by blast
  show ?thesis
    using e by (simp add: 2 3) (simp add: 1 4 p)
qed

end
